theory Spec2Isabelle
  imports Main "HOL-Library.AList"
begin

section \<open>JavaScript values\<close>

text \<open>
  The values the program handles come from \<open>JSON.parse\<close> and from object literals:
  \<open>undefined\<close>, \<open>null\<close>, booleans, numbers, strings, arrays and plain objects.

  A string is a list of characters, each character standing for the UTF-16 code unit
  of the same code (\<open>U+0000\<close> to \<open>U+00FF\<close>); text with a code unit above \<open>U+00FF\<close> is
  outside this type.

  A number is a safe integer: an integer strictly between \<open>-2^53\<close> and \<open>2^53\<close>. These
  are numbers that JavaScript holds exactly and renders by their exact decimal digits;
  a number with a fraction or of a larger magnitude, \<open>NaN\<close> and the infinities are
  outside this type. The only arithmetic of the program is the \<open>+ 1\<close> on a reading of
  the clock, whose result is held exactly as well.

  An object is the list of its own properties, with unique keys, in the order in which
  JavaScript enumerates them. No property holds a function: every value comes from JSON
  text or from an object literal of data.
\<close>

typedef js_int = "{i :: int. - (2 ^ 53) < i \<and> i < 2 ^ 53}"
  morphisms int_of js_int
  by (rule exI [of _ 0]) simp

datatype jsval =
    Undefined
  | Null
  | Bool bool
  | Num js_int
  | Str string
  | Arr "jsval list"
  | Obj "(string \<times> jsval) list"

text \<open>An exception value; the program only ever reads its \<open>message\<close>.\<close>

datatype js_error = JsError string

definition newline :: char where
  "newline = CHR 0x0A"

text \<open>The decimal digits of a natural number and of an integer.\<close>

fun show_nat :: "nat \<Rightarrow> string" where
  "show_nat n =
     (if n < 10 then [''0123456789'' ! n]
      else show_nat (n div 10) @ [''0123456789'' ! (n mod 10)])"

declare show_nat.simps [simp del]

definition show_int :: "int \<Rightarrow> string" where
  "show_int i = (if i < 0 then CHR ''-'' # show_nat (nat (- i)) else show_nat (nat i))"

fun join_comma :: "string list \<Rightarrow> string" where
  "join_comma [] = []"
| "join_comma [s] = s"
| "join_comma (s # t # ss) = s @ '','' @ join_comma (t # ss)"

text \<open>
  \<open>ToString\<close> is the conversion that \<open>+\<close> applies to its right operand when the left
  one is a string; \<open>None\<close> is the \<open>TypeError\<close> it throws. An array joins its elements
  with commas, \<open>null\<close> and \<open>undefined\<close> elements rendering as the empty string. A plain
  object renders as \<open>[object Object]\<close> through \<open>Object.prototype.toString\<close>, unless
  it has an own property \<open>toString\<close>: that property hides the inherited method and is
  not callable, and \<open>valueOf\<close> (own and not callable, or inherited and returning the
  object) yields no primitive either, so the conversion throws.
\<close>

fun ToString :: "jsval \<Rightarrow> string option" where
  "ToString Undefined = Some ''undefined''"
| "ToString Null = Some ''null''"
| "ToString (Bool b) = Some (if b then ''true'' else ''false'')"
| "ToString (Num n) = Some (show_int (int_of n))"
| "ToString (Str s) = Some s"
| "ToString (Arr xs) =
     map_option join_comma
       (those (map (\<lambda>x. if x = Undefined \<or> x = Null then Some [] else ToString x) xs))"
| "ToString (Obj kvs) =
     (if map_of kvs ''toString'' = None then Some ''[object Object]'' else None)"

text \<open>Truthiness, as \<open>if\<close>, \<open>&&\<close>, \<open>||\<close> and \<open>!\<close> test it.\<close>

fun truthy :: "jsval \<Rightarrow> bool" where
  "truthy Undefined = False"
| "truthy Null = False"
| "truthy (Bool b) = b"
| "truthy (Num n) = (int_of n \<noteq> 0)"
| "truthy (Str s) = (s \<noteq> [])"
| "truthy (Arr xs) = True"
| "truthy (Obj kvs) = True"

definition js_or :: "jsval \<Rightarrow> jsval \<Rightarrow> jsval" where
  "js_or a b = (if truthy a then a else b)"

definition lookup :: "(string \<times> jsval) list \<Rightarrow> string \<Rightarrow> jsval" where
  "lookup kvs k = (case map_of kvs k of None \<Rightarrow> Undefined | Some v \<Rightarrow> v)"

text \<open>
  Property read \<open>v.k\<close>: a \<open>TypeError\<close> (\<open>None\<close>) on \<open>null\<close> and \<open>undefined\<close>, the
  own property of an object, \<open>undefined\<close> where there is none. The keys this program
  reads (\<open>type\<close>, \<open>content\<close>, \<open>message\<close>, \<open>suggestions\<close>, \<open>next_steps\<close>, \<open>mode\<close>,
  \<open>learning_mode\<close>, \<open>id\<close>, \<open>sender\<close>, \<open>timestamp\<close>, \<open>achievements\<close>, \<open>details\<close>,
  \<open>streak\<close>, \<open>rewards\<close>) are no built-in property of a boolean, number, string,
  array or plain object.
\<close>

fun member :: "jsval \<Rightarrow> string \<Rightarrow> jsval option" where
  "member Undefined k = None"
| "member Null k = None"
| "member (Obj kvs) k = Some (lookup kvs k)"
| "member v k = Some Undefined"

text \<open>Optional chaining \<open>v?.k\<close>.\<close>

definition opt_member :: "jsval \<Rightarrow> string \<Rightarrow> jsval" where
  "opt_member v k = (case member v k of None \<Rightarrow> Undefined | Some x \<Rightarrow> x)"

text \<open>
  The properties an object spread \<open>{...v}\<close> copies: those of an object, the indexed
  elements of an array or of a string, nothing otherwise.
\<close>

fun spread_props :: "jsval \<Rightarrow> (string \<times> jsval) list" where
  "spread_props (Obj kvs) = kvs"
| "spread_props (Arr xs) = zip (map show_nat [0..<length xs]) xs"
| "spread_props (Str s) = zip (map show_nat [0..<length s]) (map (\<lambda>c. Str [c]) s)"
| "spread_props v = []"

text \<open>
  The order of the own properties of an object: the keys that are array indices (the
  decimal digits, without a leading zero, of a number below \<open>2^32 - 1\<close>) by ascending
  number, then the other keys in the order of their creation.
\<close>

definition decimal_value :: "string \<Rightarrow> nat" where
  "decimal_value k = foldl (\<lambda>n c. 10 * n + (of_char c - 48)) 0 k"

definition is_array_index :: "string \<Rightarrow> bool" where
  "is_array_index k =
     (k \<noteq> [] \<and> list_all (\<lambda>c. c \<in> set ''0123456789'') k \<and>
      (k = ''0'' \<or> hd k \<noteq> CHR ''0'') \<and> decimal_value k < 2 ^ 32 - 1)"

definition own_property_order :: "(string \<times> jsval) list \<Rightarrow> (string \<times> jsval) list" where
  "own_property_order kvs =
     sort_key (\<lambda>kv. decimal_value (fst kv)) (filter (\<lambda>kv. is_array_index (fst kv)) kvs)
     @ filter (\<lambda>kv. \<not> is_array_index (fst kv)) kvs"

text \<open>
  The object \<open>{...target, ...src}\<close>, given the properties the two spreads copy: a
  property of \<open>src\<close> replaces the value of the same key or is created after the keys
  there are.
\<close>

definition assign_all :: "(string \<times> jsval) list \<Rightarrow> (string \<times> jsval) list \<Rightarrow> (string \<times> jsval) list" where
  "assign_all target src =
     own_property_order (foldl (\<lambda>acc kv. AList.update (fst kv) (snd kv) acc) target src)"

text \<open>
  The elements an array spread \<open>[...v]\<close> iterates: a \<open>TypeError\<close> (\<open>None\<close>) when the
  value is not iterable.
\<close>

fun spread_elems :: "jsval \<Rightarrow> jsval list option" where
  "spread_elems (Arr xs) = Some xs"
| "spread_elems (Str s) = Some (map (\<lambda>c. Str [c]) s)"
| "spread_elems v = None"

section \<open>The store: \<open>initialState\<close>, \<open>ActionTypes\<close>, \<open>appReducer\<close>\<close>

record app_state =
  user :: jsval
  currentSession :: jsval
  sessions :: "jsval list"
  messages :: "jsval list"
  isLoading :: bool
  error :: jsval
  isTyping :: bool
  streamingMessage :: string
  darkMode :: bool
  progress :: "(string \<times> jsval) list"
  gamificationData :: jsval
  achievements :: jsval
  streak :: jsval
  rewards :: jsval

definition initialState :: app_state where
  "initialState =
     \<lparr> user = Null, currentSession = Null, sessions = [], messages = [],
       isLoading = False, error = Null, isTyping = False, streamingMessage = [],
       darkMode = True, progress = [], gamificationData = Null,
       achievements = Arr [], streak = Null, rewards = Null \<rparr>"

text \<open>
  An action is its type with its payload. \<open>OTHER\<close> is an action whose type is none of
  \<open>ActionTypes\<close> (the reducer's \<open>default\<close> branch).
\<close>

datatype action =
    SET_LOADING bool
  | SET_ERROR jsval
  | SET_USER jsval
  | SET_CURRENT_SESSION jsval
  | SET_SESSIONS "jsval list"
  | ADD_SESSION jsval
  | SET_MESSAGES "jsval list"
  | ADD_MESSAGE jsval
  | SET_TYPING bool
  | SET_STREAMING_MESSAGE jsval
  | CLEAR_STREAMING_MESSAGE
  | TOGGLE_DARK_MODE
  | SET_PROGRESS jsval
  | SET_GAMIFICATION_DATA jsval
  | UPDATE_STREAK jsval
  | ADD_ACHIEVEMENT jsval
  | UPDATE_REWARDS jsval
  | OTHER string

fun appReducer :: "app_state \<Rightarrow> action \<Rightarrow> js_error + app_state" where
  "appReducer state (SET_LOADING p) = Inr (state\<lparr>isLoading := p\<rparr>)"
| "appReducer state (SET_ERROR p) = Inr (state\<lparr>error := p, isLoading := False\<rparr>)"
| "appReducer state (SET_USER p) = Inr (state\<lparr>user := p\<rparr>)"
| "appReducer state (SET_CURRENT_SESSION p) = Inr (state\<lparr>currentSession := p\<rparr>)"
| "appReducer state (SET_SESSIONS p) = Inr (state\<lparr>sessions := p\<rparr>)"
| "appReducer state (ADD_SESSION p) = Inr (state\<lparr>sessions := p # sessions state\<rparr>)"
| "appReducer state (SET_MESSAGES p) = Inr (state\<lparr>messages := p\<rparr>)"
| "appReducer state (ADD_MESSAGE p) = Inr (state\<lparr>messages := messages state @ [p]\<rparr>)"
| "appReducer state (SET_TYPING p) = Inr (state\<lparr>isTyping := p\<rparr>)"
| "appReducer state (SET_STREAMING_MESSAGE p) =
     (case ToString p of
        None \<Rightarrow> Inl (JsError ''Cannot convert object to primitive value'')
      | Some rendered \<Rightarrow>
          Inr (state\<lparr>streamingMessage := streamingMessage state @ rendered\<rparr>))"
| "appReducer state CLEAR_STREAMING_MESSAGE = Inr (state\<lparr>streamingMessage := []\<rparr>)"
| "appReducer state TOGGLE_DARK_MODE = Inr (state\<lparr>darkMode := \<not> darkMode state\<rparr>)"
| "appReducer state (SET_PROGRESS p) =
     Inr (state\<lparr>progress := assign_all (progress state) (spread_props p)\<rparr>)"
| "appReducer state (SET_GAMIFICATION_DATA p) =
     Inr (state\<lparr>gamificationData := p,
                achievements := js_or (opt_member (opt_member p ''achievements'') ''details'') (Arr []),
                streak := js_or (opt_member p ''streak'') Null,
                rewards := js_or (opt_member p ''rewards'') Null\<rparr>)"
| "appReducer state (UPDATE_STREAK p) =
     Inr (state\<lparr>streak := Obj (assign_all (spread_props (streak state)) (spread_props p))\<rparr>)"
| "appReducer state (ADD_ACHIEVEMENT p) =
     (case spread_elems (achievements state) of
        None \<Rightarrow> Inl (JsError ''state.achievements is not iterable'')
      | Some xs \<Rightarrow> Inr (state\<lparr>achievements := Arr (xs @ [p])\<rparr>))"
| "appReducer state (UPDATE_REWARDS p) =
     Inr (state\<lparr>rewards := Obj (assign_all (spread_props (rewards state)) (spread_props p))\<rparr>)"
| "appReducer state (OTHER t) = Inr state"

text \<open>
  \<open>dispatch\<close> hands one action to the reducer; \<open>dispatch_all\<close> is the store after a
  series of dispatches, in order. A reducer that throws ends the series with its error.
\<close>

fun dispatch_all :: "app_state \<Rightarrow> action list \<Rightarrow> js_error + app_state" where
  "dispatch_all state [] = Inr state"
| "dispatch_all state (a # as) =
     (case appReducer state a of Inl e \<Rightarrow> Inl e | Inr state' \<Rightarrow> dispatch_all state' as)"

text \<open>
  The payloads of the \<open>SET_STREAMING_MESSAGE\<close> actions dispatched after the most recent
  \<open>CLEAR_STREAMING_MESSAGE\<close> of a series (of the whole series when it has none), in
  dispatch order.
\<close>

definition since_last_clear :: "action list \<Rightarrow> action list" where
  "since_last_clear as = rev (takeWhile (\<lambda>a. a \<noteq> CLEAR_STREAMING_MESSAGE) (rev as))"

fun streaming_payload :: "action \<Rightarrow> jsval list" where
  "streaming_payload (SET_STREAMING_MESSAGE p) = [p]"
| "streaming_payload a = []"

definition streamed_since_clear :: "action list \<Rightarrow> jsval list" where
  "streamed_since_clear as = concat (map streaming_payload (since_last_clear as))"

section \<open>The stream consumer: \<open>sendMessage\<close> and \<open>sendPremiumMessage\<close>\<close>

text \<open>
  What the network hands to one call. \<open>fetch\<close> either rejects with an error or
  resolves to a response with its \<open>ok\<close> flag and its body. The body is what the
  reader's successive \<open>read()\<close> calls yield: a value (given as the text that
  \<open>TextDecoder.decode\<close> makes of its bytes) or a rejection; after the last element of
  the list the reader reports \<open>done\<close>. A body that never ends is outside this type:
  on it the loop below would not return.
\<close>

datatype read_result = Value string | ReadFails string

datatype fetch_result = FetchFails string | Response bool "read_result list"

text \<open>
  The platform functions the consumer calls: \<open>JSON.parse\<close> (\<open>None\<close> when it throws a
  \<open>SyntaxError\<close>), the clock (\<open>date_now k\<close> is the time the \<open>k\<close>-th reading of the
  clock returns, whether by \<open>Date.now()\<close> or \<open>new Date()\<close>, a number of milliseconds)
  and \<open>Date.prototype.toISOString\<close>, applied to the milliseconds of a date.
\<close>

record env =
  json_parse :: "string \<Rightarrow> jsval option"
  date_now :: "nat \<Rightarrow> js_int"
  toISOString :: "int \<Rightarrow> string"

text \<open>
  The two consumers differ in the endpoint, in the fields of the mentor message and in
  the texts of their errors; \<open>Premium context\<close> carries the \<open>context\<close> argument of
  \<open>sendPremiumMessage\<close>, an object.
\<close>

datatype endpoint = Regular | Premium "(string \<times> jsval) list"

text \<open>
  What a call has done so far: the actions it has dispatched, in order, its local
  \<open>fullResponse\<close>, the lines it has written with \<open>console.error\<close> (the first argument
  of each call) and the number of clock readings made.
\<close>

record consumer =
  dispatched :: "action list"
  fullResponse :: string
  console :: "string list"
  clock :: nat

text \<open>\<open>s.split('\n')\<close>\<close>

fun split_newline :: "string \<Rightarrow> string list" where
  "split_newline [] = [[]]"
| "split_newline (c # cs) =
     (if c = newline then [] # split_newline cs
      else (case split_newline cs of [] \<Rightarrow> [[c]] | l # ls \<Rightarrow> (c # l) # ls))"

definition userMessage :: "env \<Rightarrow> nat \<Rightarrow> jsval \<Rightarrow> string \<Rightarrow> jsval" where
  "userMessage e t sessionId message =
     Obj [(''id'', Str (show_int (int_of (date_now e t)))),
          (''session_id'', sessionId),
          (''message'', Str message),
          (''sender'', Str ''user''),
          (''timestamp'', Str (toISOString e (int_of (date_now e (Suc t)))))]"

definition aiMessage :: "env \<Rightarrow> endpoint \<Rightarrow> jsval \<Rightarrow> consumer \<Rightarrow> jsval \<Rightarrow> jsval" where
  "aiMessage e ep sessionId c data =
     Obj ([(''id'', Str (show_int (int_of (date_now e (clock c)) + 1))),
           (''session_id'', sessionId),
           (''message'', Str (fullResponse c)),
           (''sender'', Str ''mentor''),
           (''timestamp'', Str (toISOString e (int_of (date_now e (Suc (clock c)))))),
           (''suggestions'', js_or (opt_member data ''suggestions'') (Arr []))]
          @ (case ep of
               Regular \<Rightarrow> []
             | Premium context \<Rightarrow>
                 [(''next_steps'', opt_member data ''next_steps''),
                  (''learning_mode'',
                     js_or (opt_member data ''mode'') (lookup context ''learning_mode''))]))"

definition parse_error_text :: "endpoint \<Rightarrow> string" where
  "parse_error_text ep =
     (case ep of Regular \<Rightarrow> ''Error parsing streaming data:''
               | Premium context \<Rightarrow> ''Error parsing premium streaming data:'')"

definition not_ok_text :: "endpoint \<Rightarrow> string" where
  "not_ok_text ep =
     (case ep of Regular \<Rightarrow> ''Failed to send message''
               | Premium context \<Rightarrow> ''Failed to send premium message'')"

definition log_parse_error :: "endpoint \<Rightarrow> consumer \<Rightarrow> consumer" where
  "log_parse_error ep c = c\<lparr>console := console c @ [parse_error_text ep]\<rparr>"

text \<open>
  The body of the \<open>try\<close> once \<open>JSON.parse\<close> has returned \<open>data\<close>. Reading
  \<open>data.type\<close> throws when \<open>data\<close> is \<open>null\<close>, which the \<open>catch\<close> logs; once that
  read has succeeded no later read of a property of \<open>data\<close> can throw. In the chunk
  branch \<open>fullResponse += data.content\<close> throws when the content does not convert to
  a string: the \<open>catch\<close> logs, and the statements after it are not reached.
\<close>

definition on_data :: "env \<Rightarrow> endpoint \<Rightarrow> jsval \<Rightarrow> consumer \<Rightarrow> jsval \<Rightarrow> consumer" where
  "on_data e ep sessionId c data =
     (case member data ''type'' of
        None \<Rightarrow> log_parse_error ep c
      | Some ty \<Rightarrow>
          if ty = Str ''chunk'' \<and> truthy (opt_member data ''content'') then
            (case ToString (opt_member data ''content'') of
               None \<Rightarrow> log_parse_error ep c
             | Some rendered \<Rightarrow>
                 c\<lparr>fullResponse := fullResponse c @ rendered,
                   dispatched := dispatched c @
                     [SET_STREAMING_MESSAGE (opt_member data ''content'')]\<rparr>)
          else if ty = Str ''complete'' then
            c\<lparr>dispatched := dispatched c @
                 [SET_TYPING False,
                  ADD_MESSAGE (aiMessage e ep sessionId c data),
                  CLEAR_STREAMING_MESSAGE],
              clock := clock c + 2\<rparr>
          else if ty = Str ''error'' then
            c\<lparr>dispatched := dispatched c @
                 [SET_TYPING False,
                  SET_ERROR (opt_member data ''message''),
                  CLEAR_STREAMING_MESSAGE]\<rparr>
          else c)"

text \<open>The body of \<open>for (const line of lines)\<close>.\<close>

definition on_line :: "env \<Rightarrow> endpoint \<Rightarrow> jsval \<Rightarrow> consumer \<Rightarrow> string \<Rightarrow> consumer" where
  "on_line e ep sessionId c line =
     (if take 6 line = ''data: '' then
        (case json_parse e (drop 6 line) of
           None \<Rightarrow> log_parse_error ep c
         | Some data \<Rightarrow> on_data e ep sessionId c data)
      else c)"

text \<open>
  The \<open>while (true)\<close> loop, one iteration for each result of \<open>reader.read()\<close>: it ends
  normally when the reader reports \<open>done\<close> and with the error when a read rejects.
\<close>

fun read_loop :: "env \<Rightarrow> endpoint \<Rightarrow> jsval \<Rightarrow> consumer \<Rightarrow> read_result list \<Rightarrow> consumer \<times> string option" where
  "read_loop e ep sessionId c [] = (c, None)"
| "read_loop e ep sessionId c (ReadFails m # rs) = (c, Some m)"
| "read_loop e ep sessionId c (Value text # rs) =
     read_loop e ep sessionId (foldl (on_line e ep sessionId) c (split_newline text)) rs"

text \<open>The outer \<open>catch\<close>.\<close>

definition failed :: "consumer \<Rightarrow> string \<Rightarrow> consumer \<times> (js_error + string)" where
  "failed c m =
     (c\<lparr>dispatched := dispatched c @
           [SET_TYPING False, CLEAR_STREAMING_MESSAGE, SET_ERROR (Str m)]\<rparr>,
      Inl (JsError m))"

text \<open>
  A call started when \<open>t\<close> readings of the clock have been made. Before the request
  is sent the call has dispatched the user's message, \<open>setTyping(true)\<close> and
  \<open>clearStreamingMessage()\<close>.
\<close>

definition before_fetch :: "env \<Rightarrow> nat \<Rightarrow> jsval \<Rightarrow> string \<Rightarrow> consumer" where
  "before_fetch e t sessionId message =
     \<lparr> dispatched = [ADD_MESSAGE (userMessage e t sessionId message),
                     SET_TYPING True,
                     CLEAR_STREAMING_MESSAGE],
       fullResponse = [], console = [], clock = t + 2 \<rparr>"

text \<open>
  One call: the consumer it ends with and what it returns (\<open>Inr fullResponse\<close>) or
  throws (\<open>Inl\<close>).
\<close>

definition send :: "env \<Rightarrow> endpoint \<Rightarrow> nat \<Rightarrow> jsval \<Rightarrow> string \<Rightarrow> fetch_result \<Rightarrow> consumer \<times> (js_error + string)" where
  "send e ep t sessionId message response =
     (let c = before_fetch e t sessionId message
      in case response of
           FetchFails m \<Rightarrow> failed c m
         | Response ok body \<Rightarrow>
             if \<not> ok then failed c (not_ok_text ep)
             else (case read_loop e ep sessionId c body of
                     (c', None) \<Rightarrow> (c', Inr (fullResponse c'))
                   | (c', Some m) \<Rightarrow> failed c' m))"

definition sendMessage :: "env \<Rightarrow> nat \<Rightarrow> jsval \<Rightarrow> string \<Rightarrow> fetch_result \<Rightarrow> consumer \<times> (js_error + string)" where
  "sendMessage e t sessionId message response = send e Regular t sessionId message response"

definition sendPremiumMessage :: "env \<Rightarrow> nat \<Rightarrow> jsval \<Rightarrow> string \<Rightarrow> (string \<times> jsval) list \<Rightarrow> fetch_result \<Rightarrow> consumer \<times> (js_error + string)" where
  "sendPremiumMessage e t sessionId message context response =
     send e (Premium context) t sessionId message response"

section \<open>The chat form: \<open>handleSendMessage\<close> of \<open>ChatInterface\<close>\<close>

record chat_ui =
  inputMessage :: string
  learningMode :: string
  useAdvancedStreaming :: bool
  useContextAwareness :: bool

text \<open>
  \<open>s.trim()\<close> strips the white space and the line terminators of JavaScript from both
  ends. Among the code units up to \<open>U+00FF\<close> these are the tab, the line feed, the
  vertical tab, the form feed, the carriage return, the space and the no-break space
  \<open>U+00A0\<close>.
\<close>

definition is_space :: "char \<Rightarrow> bool" where
  "is_space c =
     (c \<in> set [CHR 0x09, CHR 0x0A, CHR 0x0B, CHR 0x0C, CHR 0x0D, CHR 0x20, CHR 0xA0])"

definition trim :: "string \<Rightarrow> string" where
  "trim s = rev (dropWhile is_space (rev (dropWhile is_space s)))"

text \<open>
  What the two endpoints answer to a submit: the response of
  \<open>/api/chat/premium/stream\<close> and the response of \<open>/api/chat/stream\<close>, which is only
  asked for as the fallback.
\<close>

record network =
  premium_response :: fetch_result
  fallback_response :: fetch_result

text \<open>
  \<open>contextAwareChat.sendContextAwareMessage\<close> belongs to a component that is not among
  the sources; it is a parameter here, giving for a message and its conversation
  context the actions it dispatches, the clock readings it makes and the error it throws,
  if any.
\<close>

record context_aware_result =
  ca_actions :: "action list"
  ca_clock :: nat
  ca_error :: "js_error option"

text \<open>
  What one submit has done: the form's state after it, the actions dispatched, the
  streaming requests opened with \<open>fetch\<close>, and the lines written to the console.
\<close>

record submit_result =
  ui_after :: chat_ui
  actions_dispatched :: "action list"
  streams_opened :: nat
  console_lines :: "string list"

text \<open>\<open>state.messages.map(msg => ({sender: msg.sender, ...}))\<close>: \<open>None\<close> when a read throws.\<close>

fun conversationContext :: "jsval list \<Rightarrow> jsval list option" where
  "conversationContext [] = Some []"
| "conversationContext (msg # ms) =
     (case member msg ''sender'' of
        None \<Rightarrow> None
      | Some sender \<Rightarrow>
          (case conversationContext ms of
             None \<Rightarrow> None
           | Some rest \<Rightarrow>
               Some (Obj [(''sender'', sender),
                          (''message'', opt_member msg ''message''),
                          (''timestamp'', opt_member msg ''timestamp'')] # rest)))"

text \<open>The \<open>catch\<close> of \<open>handleSendMessage\<close>: log, then fall back to \<open>sendMessage\<close>.\<close>

definition fallback :: "env \<Rightarrow> network \<Rightarrow> app_state \<Rightarrow> string \<Rightarrow> submit_result \<Rightarrow> nat \<Rightarrow> submit_result" where
  "fallback e net state message r t =
     (case sendMessage e t (opt_member (currentSession state) ''id'') message (fallback_response net) of
        (c, res) \<Rightarrow>
          r\<lparr>actions_dispatched := actions_dispatched r @ dispatched c,
            streams_opened := streams_opened r + 1,
            console_lines := console_lines r @ [''Error sending premium message:''] @ console c @
              (case res of Inl err \<Rightarrow> [''Error sending fallback message:''] | Inr full \<Rightarrow> [])\<rparr>)"

definition handleSendMessage :: "env \<Rightarrow> (string \<Rightarrow> jsval list \<Rightarrow> context_aware_result) \<Rightarrow> network \<Rightarrow> nat \<Rightarrow> chat_ui \<Rightarrow> app_state \<Rightarrow> submit_result" where
  "handleSendMessage e sendContextAwareMessage net t ui state =
     (if trim (inputMessage ui) = [] \<or> \<not> truthy (currentSession state) \<or> isTyping state then
        \<lparr> ui_after = ui, actions_dispatched = [], streams_opened = 0, console_lines = [] \<rparr>
      else
        let message = trim (inputMessage ui);
            r = \<lparr> ui_after = ui\<lparr>inputMessage := []\<rparr>, actions_dispatched = [],
                  streams_opened = 0, console_lines = [] \<rparr>
        in if useContextAwareness ui then
             (case conversationContext (messages state) of
                None \<Rightarrow> fallback e net state message r t
              | Some conversation \<Rightarrow>
                  let ca = sendContextAwareMessage message conversation;
                      r' = r\<lparr>actions_dispatched := ca_actions ca\<rparr>
                  in (case ca_error ca of
                        None \<Rightarrow> r'
                      | Some err \<Rightarrow> fallback e net state message r' (t + ca_clock ca)))
           else if useAdvancedStreaming ui then r
           else
             (case sendPremiumMessage e t (opt_member (currentSession state) ''id'') message
                     [(''learning_mode'', Str (learningMode ui)),
                      (''user_preferences'',
                         Obj [(''difficulty_preference'', Str ''adaptive''),
                              (''interaction_style'', Str ''collaborative'')])]
                     (premium_response net) of
                (c, res) \<Rightarrow>
                  let r' = r\<lparr>actions_dispatched := dispatched c, streams_opened := 1,
                             console_lines := console c\<rparr>
                  in (case res of
                        Inr full \<Rightarrow> r'
                      | Inl err \<Rightarrow> fallback e net state message r' (clock c))))"



definition submit_disabled :: "chat_ui \<Rightarrow> app_state \<Rightarrow> bool" where
  "submit_disabled ui state = (trim (inputMessage ui) = [] \<or> isTyping state)"

section \<open>Frames on the wire\<close>

text \<open>
  The consumer takes as a frame a line that starts with the marker \<open>data: \<close>, the
  payload being the rest of the line up to the newline. The predicates below name the
  payloads the properties speak of, by what \<open>JSON.parse\<close> makes of them: a chunk with a
  content string, a complete frame, an error frame with its message, a payload that
  does not parse, and a chunk whose content is missing, \<open>null\<close> or the empty string.
  A payload holds no newline (JSON escapes it inside strings).
\<close>

definition data_line :: "string \<Rightarrow> string" where
  "data_line payload = ''data: '' @ payload"

definition data_frame :: "string \<Rightarrow> string" where
  "data_frame payload = data_line payload @ [newline]"

definition chunk_payload :: "env \<Rightarrow> string \<Rightarrow> string \<Rightarrow> bool" where
  "chunk_payload e payload content =
     (newline \<notin> set payload \<and>
      (case json_parse e payload of
         None \<Rightarrow> False
       | Some data \<Rightarrow>
           member data ''type'' = Some (Str ''chunk'') \<and>
           member data ''content'' = Some (Str content)))"

definition complete_payload :: "env \<Rightarrow> string \<Rightarrow> bool" where
  "complete_payload e payload =
     (newline \<notin> set payload \<and>
      (case json_parse e payload of
         None \<Rightarrow> False
       | Some data \<Rightarrow> member data ''type'' = Some (Str ''complete'')))"

definition error_payload :: "env \<Rightarrow> string \<Rightarrow> jsval \<Rightarrow> bool" where
  "error_payload e payload msg =
     (newline \<notin> set payload \<and>
      (case json_parse e payload of
         None \<Rightarrow> False
       | Some data \<Rightarrow>
           member data ''type'' = Some (Str ''error'') \<and> member data ''message'' = Some msg))"

definition malformed_payload :: "env \<Rightarrow> string \<Rightarrow> bool" where
  "malformed_payload e payload = (newline \<notin> set payload \<and> json_parse e payload = None)"

definition empty_chunk_payload :: "env \<Rightarrow> string \<Rightarrow> bool" where
  "empty_chunk_payload e payload =
     (newline \<notin> set payload \<and>
      (case json_parse e payload of
         None \<Rightarrow> False
       | Some data \<Rightarrow>
           member data ''type'' = Some (Str ''chunk'') \<and>
           member data ''content'' \<in> {Some Undefined, Some Null, Some (Str [])}))"

text \<open>
  The lines the loop goes through for a body of values, read after read, and those of
  them that are not blank. A frame that no read boundary cuts is one of these lines.
\<close>

definition lines_read :: "string list \<Rightarrow> string list" where
  "lines_read rs = concat (map split_newline rs)"

definition frame_lines :: "string list \<Rightarrow> string list" where
  "frame_lines rs = filter (\<lambda>l. l \<noteq> []) (lines_read rs)"

text \<open>A read that ends where a line ends: it is empty or its last character is the newline.\<close>

definition line_aligned :: "string \<Rightarrow> bool" where
  "line_aligned r = (r = [] \<or> last r = newline)"

text \<open>
  The lines on which the consumer enters one of its three branches: a frame whose
  payload parses to a chunk with truthy content, to a complete frame or to an error
  frame. On any other line it dispatches nothing.
\<close>

definition effective_line :: "env \<Rightarrow> string \<Rightarrow> bool" where
  "effective_line e line =
     (take 6 line = ''data: '' \<and>
      (case json_parse e (drop 6 line) of
         None \<Rightarrow> False
       | Some data \<Rightarrow>
           (case member data ''type'' of
              None \<Rightarrow> False
            | Some ty \<Rightarrow>
                (ty = Str ''chunk'' \<and> truthy (opt_member data ''content'')) \<or>
                ty = Str ''complete'' \<or> ty = Str ''error'')))"


text \<open>
  A body made from another by adding one frame of a chunk without content, either at a
  line boundary inside a read or as a read of its own.
\<close>

inductive insert_empty_chunk :: "env \<Rightarrow> read_result list \<Rightarrow> read_result list \<Rightarrow> bool"
  for e :: env where
  within_read:
    "empty_chunk_payload e p \<Longrightarrow> line_aligned a \<Longrightarrow>
     insert_empty_chunk e (pre @ Value (a @ b) # post) (pre @ Value (a @ data_frame p @ b) # post)"
| own_read:
    "empty_chunk_payload e p \<Longrightarrow>
     insert_empty_chunk e (pre @ post) (pre @ Value (data_frame p) # post)"

text \<open>
  The actions the two consumers dispatch; the payload of a \<open>SET_STREAMING_MESSAGE\<close>
  among them has been converted to a string before.
\<close>

fun consumer_action :: "action \<Rightarrow> bool" where
  "consumer_action (ADD_MESSAGE p) = True"
| "consumer_action (SET_TYPING p) = True"
| "consumer_action (SET_STREAMING_MESSAGE p) = (ToString p \<noteq> None)"
| "consumer_action CLEAR_STREAMING_MESSAGE = True"
| "consumer_action (SET_ERROR p) = True"
| "consumer_action a = False"

section \<open>A sample platform and sample frames\<close>

text \<open>
  Concrete inputs for the checks below. \<open>sample_parse\<close> agrees with \<open>JSON.parse\<close> on
  the payloads listed, and on every text that is not JSON at all (where both fail); the
  sample clock returns \<open>k\<close> milliseconds after the epoch at its \<open>k\<close>-th reading, and
  \<open>sample_iso\<close> is \<open>toISOString\<close> on the first ten milliseconds of the epoch.
\<close>

definition sample_parse :: "string \<Rightarrow> jsval option" where
  \<open>sample_parse = map_of
     [(''{"type":"chunk","content":"Recur"}'',
         Obj [(''type'', Str ''chunk''), (''content'', Str ''Recur'')]),
      (''{"type":"chunk","content":"sion is"}'',
         Obj [(''type'', Str ''chunk''), (''content'', Str ''sion is'')]),
      (''{"type":"chunk","content":"..."}'',
         Obj [(''type'', Str ''chunk''), (''content'', Str ''...'')]),
      (''{"type":"chunk","content":""}'',
         Obj [(''type'', Str ''chunk''), (''content'', Str [])]),
      (''{"type":"chunk","content":null}'',
         Obj [(''type'', Str ''chunk''), (''content'', Null)]),
      (''{"type":"chunk"}'',
         Obj [(''type'', Str ''chunk'')]),
      (''{"type":"complete","suggestions":["Try an example"]}'',
         Obj [(''type'', Str ''complete''), (''suggestions'', Arr [Str ''Try an example''])]),
      (''{"type":"error","message":"Upstream unavailable"}'',
         Obj [(''type'', Str ''error''), (''message'', Str ''Upstream unavailable'')])]\<close>

definition sample_iso :: "int \<Rightarrow> string" where
  "sample_iso ms = ''1970-01-01T00:00:00.00'' @ show_int ms @ ''Z''"

text \<open>
  The sample clock: the \<open>k\<close>-th reading is \<open>k\<close> milliseconds after the epoch, and no
  reading is beyond the last time value of a \<open>Date\<close>.
\<close>

definition sample_now :: "nat \<Rightarrow> js_int" where
  "sample_now k = js_int (min (int k) 8640000000000000)"

definition sample_env :: env where
  "sample_env = \<lparr> json_parse = sample_parse, date_now = sample_now, toISOString = sample_iso \<rparr>"

section \<open>Lemmas about the store\<close>

lemma dispatch_all_append:
  "dispatch_all s (xs @ ys) =
     (case dispatch_all s xs of Inl e \<Rightarrow> Inl e | Inr s' \<Rightarrow> dispatch_all s' ys)"
  by (induction xs arbitrary: s) (auto split: sum.splits)

lemma since_last_clear_snoc:
  "since_last_clear (as @ [a]) =
     (if a = CLEAR_STREAMING_MESSAGE then [] else since_last_clear as @ [a])"
  by (simp add: since_last_clear_def)

lemma streamed_since_clear_snoc:
  "streamed_since_clear (as @ [a]) =
     (if a = CLEAR_STREAMING_MESSAGE then [] else streamed_since_clear as @ streaming_payload a)"
  by (simp add: streamed_since_clear_def since_last_clear_snoc)

lemma appReducer_streamingMessage:
  "appReducer s a = Inr s' \<Longrightarrow>
   \<exists>ts. map ToString (streaming_payload a) = map Some ts \<and>
        streamingMessage s' =
          (if a = CLEAR_STREAMING_MESSAGE then [] else streamingMessage s @ concat ts)"
proof (cases a)
  case (SET_STREAMING_MESSAGE p)
  assume r: "appReducer s a = Inr s'"
  with SET_STREAMING_MESSAGE obtain x where x: "ToString p = Some x"
    and s': "s' = s\<lparr>streamingMessage := streamingMessage s @ x\<rparr>"
    by (auto split: option.splits)
  have "map ToString (streaming_payload a) = map Some [x]"
    by (simp add: SET_STREAMING_MESSAGE x)
  moreover have "streamingMessage s' =
      (if a = CLEAR_STREAMING_MESSAGE then [] else streamingMessage s @ concat [x])"
    by (simp add: SET_STREAMING_MESSAGE s')
  ultimately show ?thesis by blast
qed (auto split: option.splits)

lemma dispatch_all_streamingMessage:
  "dispatch_all s as = Inr s' \<Longrightarrow>
   \<exists>ts. map ToString (streamed_since_clear as) = map Some ts \<and>
        streamingMessage s' =
          (if CLEAR_STREAMING_MESSAGE \<in> set as then [] else streamingMessage s) @ concat ts"
proof (induction as arbitrary: s' rule: rev_induct)
  case Nil
  then show ?case by (simp add: streamed_since_clear_def since_last_clear_def)
next
  case (snoc a as)
  from snoc.prems obtain s1 where s1: "dispatch_all s as = Inr s1" and a: "appReducer s1 a = Inr s'"
    by (auto simp: dispatch_all_append split: sum.splits)
  obtain ts where ts: "map ToString (streamed_since_clear as) = map Some ts"
    "streamingMessage s1 =
       (if CLEAR_STREAMING_MESSAGE \<in> set as then [] else streamingMessage s) @ concat ts"
    using snoc.IH [OF s1] by blast
  obtain us where us: "map ToString (streaming_payload a) = map Some us"
    "streamingMessage s' =
       (if a = CLEAR_STREAMING_MESSAGE then [] else streamingMessage s1 @ concat us)"
    using appReducer_streamingMessage [OF a] by blast
  show ?case
  proof (cases "a = CLEAR_STREAMING_MESSAGE")
    case True
    with us show ?thesis by (simp add: streamed_since_clear_snoc)
  next
    case False
    have "map ToString (streamed_since_clear (as @ [a])) = map Some (ts @ us)"
      using False ts(1) us(1) by (simp add: streamed_since_clear_snoc)
    moreover have "streamingMessage s' =
        (if CLEAR_STREAMING_MESSAGE \<in> set (as @ [a]) then [] else streamingMessage s)
          @ concat (ts @ us)"
      using False ts(2) us(2) by simp
    ultimately show ?thesis by blast
  qed
qed

lemma dispatch_all_streaming:
  "dispatch_all s (map (\<lambda>x. SET_STREAMING_MESSAGE (Str x)) (filter (\<lambda>x. x \<noteq> []) xs)) =
     Inr (s\<lparr>streamingMessage := streamingMessage s @ concat xs\<rparr>)"
  by (induction xs arbitrary: s) auto

lemma dispatch_consumer_actions:
  "list_all consumer_action as \<Longrightarrow>
   \<exists>s' ms. dispatch_all s as = Inr s' \<and> messages s' = messages s @ ms"
proof (induction as arbitrary: s)
  case Nil
  show ?case by simp
next
  case (Cons a as)
  then have a: "consumer_action a" and as: "list_all consumer_action as" by simp_all
  from a obtain s1 m1 where s1: "appReducer s a = Inr s1" "messages s1 = messages s @ m1"
    by (cases a) auto
  from Cons.IH [OF as, of s1] s1 show ?case by auto
qed

section \<open>Lemmas about lines and reads\<close>

lemma split_newline_not_Nil: "split_newline s \<noteq> []"
  by (induction s) (auto split: list.splits)

lemma split_newline_no_newline: "newline \<notin> set s \<Longrightarrow> split_newline s = [s]"
  by (induction s) auto

lemma split_newline_append:
  "split_newline (a @ newline # b) = split_newline a @ split_newline b"
proof (induction a)
  case Nil
  show ?case by simp
next
  case (Cons c a)
  show ?case
  proof (cases "c = newline")
    case True
    with Cons show ?thesis by simp
  next
    case False
    obtain l ls where "split_newline a = l # ls"
      using split_newline_not_Nil [of a] by (cases "split_newline a") auto
    with False Cons show ?thesis by simp
  qed
qed

lemma newline_not_in_marker: "newline \<notin> set ''data: ''"
  by (simp add: newline_def)

lemma on_line_Nil: "on_line e ep sid c [] = c"
  by (simp add: on_line_def)

lemma on_line_data:
  "on_line e ep sid c (data_line p) =
     (case json_parse e p of
        None \<Rightarrow> log_parse_error ep c
      | Some data \<Rightarrow> on_data e ep sid c data)"
  by (simp add: on_line_def data_line_def)

lemma member_opt: "member d k = Some v \<Longrightarrow> opt_member d k = v"
  by (simp add: opt_member_def)

lemma foldl_lines_terminated:
  "foldl (on_line e ep sid) c (split_newline (a @ [newline])) =
   foldl (on_line e ep sid) c (split_newline a)"
  using split_newline_append [of a "[]"] by (simp add: on_line_Nil)

lemma foldl_lines_append:
  assumes "line_aligned r"
  shows "foldl (on_line e ep sid) c (split_newline (r @ b)) =
         foldl (on_line e ep sid) (foldl (on_line e ep sid) c (split_newline r)) (split_newline b)"
proof (cases "r = []")
  case True
  then show ?thesis by (simp add: on_line_Nil)
next
  case False
  with assms obtain a where r: "r = a @ [newline]"
    unfolding line_aligned_def by (metis append_butlast_last_id)
  have "split_newline (r @ b) = split_newline a @ split_newline b"
    using split_newline_append [of a b] by (simp add: r)
  then show ?thesis
    by (simp add: r foldl_lines_terminated)
qed

lemma concat_aligned:
  "list_all line_aligned rs \<Longrightarrow> line_aligned (concat rs)"
proof (induction rs rule: rev_induct)
  case Nil
  show ?case by (simp add: line_aligned_def)
next
  case (snoc r rs)
  then have "line_aligned r" and "line_aligned (concat rs)"
    by simp_all
  then show ?case by (cases "r = []") (simp_all add: line_aligned_def)
qed

lemma read_loop_Values:
  "read_loop e ep sid c (map Value rs) =
     (foldl (\<lambda>c r. foldl (on_line e ep sid) c (split_newline r)) c rs, None)"
  by (induction rs arbitrary: c) auto

lemma read_loop_append:
  "read_loop e ep sid c (xs @ ys) =
     (case read_loop e ep sid c xs of
        (c', None) \<Rightarrow> read_loop e ep sid c' ys
      | (c', Some m) \<Rightarrow> (c', Some m))"
proof (induction xs arbitrary: c)
  case Nil
  show ?case by simp
next
  case (Cons x xs)
  then show ?case by (cases x) simp_all
qed

lemma reads_as_one:
  "list_all line_aligned rs \<Longrightarrow>
   foldl (\<lambda>c r. foldl (on_line e ep sid) c (split_newline r)) c rs =
   foldl (on_line e ep sid) c (split_newline (concat rs))"
proof (induction rs rule: rev_induct)
  case Nil
  show ?case by (simp add: on_line_Nil)
next
  case (snoc r rs)
  then have al: "list_all line_aligned rs" by simp
  have "foldl (on_line e ep sid) c (split_newline (concat rs @ r)) =
        foldl (on_line e ep sid) (foldl (on_line e ep sid) c (split_newline (concat rs))) (split_newline r)"
    by (rule foldl_lines_append [OF concat_aligned [OF al]])
  with snoc.IH [OF al] show ?case by simp
qed

lemma split_frames:
  "list_all (\<lambda>p. newline \<notin> set p) g \<Longrightarrow>
   split_newline (concat (map data_frame g)) = map data_line g @ [[]]"
proof (induction g)
  case Nil
  show ?case by simp
next
  case (Cons p g)
  then have p: "newline \<notin> set (data_line p)"
    using newline_not_in_marker by (simp add: data_line_def)
  have "split_newline (data_line p @ newline # concat (map data_frame g)) =
        split_newline (data_line p) @ split_newline (concat (map data_frame g))"
    by (rule split_newline_append)
  moreover have "concat (map data_frame (p # g)) = data_line p @ newline # concat (map data_frame g)"
    by (simp add: data_frame_def)
  ultimately show ?case
    using Cons p by (simp add: split_newline_no_newline)
qed

lemma foldl_frames:
  "list_all (\<lambda>p. newline \<notin> set p) g \<Longrightarrow>
   foldl (on_line e ep sid) c (split_newline (concat (map data_frame g))) =
   foldl (on_line e ep sid) c (map data_line g)"
  by (simp add: split_frames on_line_Nil)

lemma foldl_insert_frame:
  assumes "line_aligned a" and "newline \<notin> set p"
  shows "foldl (on_line e ep sid) c (split_newline (a @ data_frame p @ b)) =
         foldl (on_line e ep sid)
           (on_line e ep sid (foldl (on_line e ep sid) c (split_newline a)) (data_line p))
           (split_newline b)"
proof -
  have nl: "newline \<notin> set (data_line p)"
    using assms(2) newline_not_in_marker by (simp add: data_line_def)
  have "split_newline (data_frame p @ b) = data_line p # split_newline b"
    using split_newline_append [of "data_line p" b] nl
    by (simp add: data_frame_def split_newline_no_newline)
  then show ?thesis
    by (simp add: foldl_lines_append [OF assms(1)])
qed

section \<open>Lemmas about the frames\<close>

lemma on_line_chunk:
  "chunk_payload e p x \<Longrightarrow>
   on_line e ep sid c (data_line p) =
     c\<lparr>fullResponse := fullResponse c @ x,
       dispatched := dispatched c @
         map (\<lambda>x. SET_STREAMING_MESSAGE (Str x)) (filter (\<lambda>x. x \<noteq> []) [x])\<rparr>"
  by (auto simp: chunk_payload_def on_line_data on_data_def member_opt split: option.splits)

lemma foldl_chunks:
  "list_all2 (chunk_payload e) ps xs \<Longrightarrow>
   foldl (on_line e ep sid) c (map data_line ps) =
     c\<lparr>fullResponse := fullResponse c @ concat xs,
       dispatched := dispatched c @
         map (\<lambda>x. SET_STREAMING_MESSAGE (Str x)) (filter (\<lambda>x. x \<noteq> []) xs)\<rparr>"
proof (induction ps xs arbitrary: c rule: list_all2_induct)
  case Nil
  show ?case by simp
next
  case (Cons p ps x xs)
  show ?case by (simp add: on_line_chunk [OF Cons.hyps(1)] Cons.IH)
qed

lemma on_line_complete:
  "complete_payload e q \<Longrightarrow>
   \<exists>data. json_parse e q = Some data \<and>
     on_line e ep sid c (data_line q) =
       c\<lparr>dispatched := dispatched c @
            [SET_TYPING False, ADD_MESSAGE (aiMessage e ep sid c data), CLEAR_STREAMING_MESSAGE],
         clock := clock c + 2\<rparr>"
  by (auto simp: complete_payload_def on_line_data on_data_def split: option.splits)


lemma on_line_empty_chunk:
  "empty_chunk_payload e p \<Longrightarrow> on_line e ep sid c (data_line p) = c"
  by (auto simp: empty_chunk_payload_def on_line_data on_data_def member_opt split: option.splits)


lemma on_line_inert:
  "\<not> effective_line e l \<Longrightarrow>
   dispatched (on_line e ep sid c l) = dispatched c \<and>
   fullResponse (on_line e ep sid c l) = fullResponse c \<and>
   clock (on_line e ep sid c l) = clock c"
  by (auto simp: effective_line_def on_line_def on_data_def log_parse_error_def split: option.splits)

lemma aiMessage_fields:
  "member (aiMessage e ep sid c data) ''message'' = Some (Str (fullResponse c))"
  "member (aiMessage e ep sid c data) ''sender'' = Some (Str ''mentor'')"
  by (simp_all add: aiMessage_def lookup_def)

lemma read_loop_lines:
  "read_loop e ep sid c (map Value rs) = (foldl (on_line e ep sid) c (lines_read rs), None)"
  by (induction rs arbitrary: c) (simp_all add: lines_read_def)

lemma foldl_skip_blank:
  "foldl (on_line e ep sid) c ls = foldl (on_line e ep sid) c (filter (\<lambda>l. l \<noteq> []) ls)"
  by (induction ls arbitrary: c) (simp_all add: on_line_Nil)

lemma read_loop_frame_lines:
  "read_loop e ep sid c (map Value rs) = (foldl (on_line e ep sid) c (frame_lines rs), None)"
  unfolding frame_lines_def read_loop_lines by (simp add: foldl_skip_blank [symmetric])

lemma chunks_then_last:
  assumes "list_all2 (chunk_payload e) ps xs" and "frame_lines rs = map data_line (ps @ [q])"
  shows "read_loop e ep sid c (map Value rs) =
     (on_line e ep sid
        (c\<lparr>fullResponse := fullResponse c @ concat xs,
           dispatched := dispatched c @
             map (\<lambda>x. SET_STREAMING_MESSAGE (Str x)) (filter (\<lambda>x. x \<noteq> []) xs)\<rparr>)
        (data_line q), None)"
  by (simp add: read_loop_frame_lines assms(2) foldl_chunks [OF assms(1)])

section \<open>Lemmas about logging\<close>






section \<open>Lemmas about a whole call\<close>

lemma send_simps:
  "send e ep t sid msg (FetchFails m) = failed (before_fetch e t sid msg) m"
  "send e ep t sid msg (Response False body) = failed (before_fetch e t sid msg) (not_ok_text ep)"
  "send e ep t sid msg (Response True body) =
     (case read_loop e ep sid (before_fetch e t sid msg) body of
        (c', None) \<Rightarrow> (c', Inr (fullResponse c'))
      | (c', Some m) \<Rightarrow> failed c' m)"
  by (simp_all add: send_def)

lemma on_line_grows:
  "\<exists>ys. dispatched (on_line e ep sid c l) = dispatched c @ ys \<and> list_all consumer_action ys"
  by (auto simp: on_line_def on_data_def log_parse_error_def split: option.splits)

lemma foldl_on_line_grows:
  "\<exists>ys. dispatched (foldl (on_line e ep sid) c ls) = dispatched c @ ys \<and>
        list_all consumer_action ys"
proof (induction ls arbitrary: c)
  case Nil
  show ?case by simp
next
  case (Cons l ls)
  obtain ys where ys: "dispatched (on_line e ep sid c l) = dispatched c @ ys"
      "list_all consumer_action ys"
    using on_line_grows by blast
  obtain zs where zs: "dispatched (foldl (on_line e ep sid) (on_line e ep sid c l) ls)
      = dispatched (on_line e ep sid c l) @ zs" "list_all consumer_action zs"
    using Cons.IH by blast
  from ys zs show ?case by auto
qed

lemma read_loop_grows:
  "\<exists>ys. dispatched (fst (read_loop e ep sid c body)) = dispatched c @ ys \<and>
        list_all consumer_action ys"
proof (induction body arbitrary: c)
  case Nil
  show ?case by simp
next
  case (Cons x body)
  show ?case
  proof (cases x)
    case (Value r)
    obtain ys where ys:
      "dispatched (foldl (on_line e ep sid) c (split_newline r)) = dispatched c @ ys"
      "list_all consumer_action ys"
      using foldl_on_line_grows by blast
    obtain zs where zs:
      "dispatched (fst (read_loop e ep sid (foldl (on_line e ep sid) c (split_newline r)) body))
       = dispatched (foldl (on_line e ep sid) c (split_newline r)) @ zs"
      "list_all consumer_action zs"
      using Cons.IH by blast
    from ys zs Value show ?thesis by auto
  next
    case (ReadFails m)
    then show ?thesis by simp
  qed
qed



lemma send_grows:
  "\<exists>ys. dispatched (fst (send e ep t sid msg response)) =
          [ADD_MESSAGE (userMessage e t sid msg), SET_TYPING True, CLEAR_STREAMING_MESSAGE] @ ys
        \<and> list_all consumer_action ys"
proof -
  have b: "dispatched (before_fetch e t sid msg) =
      [ADD_MESSAGE (userMessage e t sid msg), SET_TYPING True, CLEAR_STREAMING_MESSAGE]"
    by (simp add: before_fetch_def)
  show ?thesis
  proof (cases response)
    case (FetchFails m)
    then show ?thesis by (simp add: send_simps failed_def b)
  next
    case (Response ok body)
    obtain ys where ys: "dispatched (fst (read_loop e ep sid (before_fetch e t sid msg) body))
        = dispatched (before_fetch e t sid msg) @ ys" "list_all consumer_action ys"
      using read_loop_grows by blast
    with Response show ?thesis
      by (cases "read_loop e ep sid (before_fetch e t sid msg) body"; cases ok)
         (auto simp: send_simps failed_def b split: option.splits)
  qed
qed

lemma send_throws:
  assumes "snd (send e ep t sid msg response) = Inl (JsError m)"
  shows "\<exists>ys. dispatched (fst (send e ep t sid msg response)) =
          [ADD_MESSAGE (userMessage e t sid msg)] @ ys @
          [SET_TYPING False, CLEAR_STREAMING_MESSAGE, SET_ERROR (Str m)]
        \<and> list_all consumer_action ys"
proof -
  have b: "dispatched (before_fetch e t sid msg) =
      [ADD_MESSAGE (userMessage e t sid msg), SET_TYPING True, CLEAR_STREAMING_MESSAGE]"
    by (simp add: before_fetch_def)
  show ?thesis
  proof (cases response)
    case (FetchFails m')
    with assms show ?thesis by (simp add: send_simps failed_def b)
  next
    case (Response ok body)
    obtain ys where ys: "dispatched (fst (read_loop e ep sid (before_fetch e t sid msg) body))
        = dispatched (before_fetch e t sid msg) @ ys" "list_all consumer_action ys"
      using read_loop_grows by blast
    with Response assms show ?thesis
      by (cases "read_loop e ep sid (before_fetch e t sid msg) body"; cases ok)
         (auto simp: send_simps failed_def b split: option.splits)
  qed
qed

lemma state_after_throw:
  assumes "snd (send e ep t sid msg response) = Inl (JsError m)"
  shows "\<exists>s' ms. dispatch_all s (dispatched (fst (send e ep t sid msg response))) = Inr s'
           \<and> messages s' = messages s @ userMessage e t sid msg # ms
           \<and> isTyping s' = False \<and> streamingMessage s' = [] \<and> error s' = Str m"
proof -
  from send_throws [OF assms] obtain ys where
    d: "dispatched (fst (send e ep t sid msg response)) =
          [ADD_MESSAGE (userMessage e t sid msg)] @ ys @
          [SET_TYPING False, CLEAR_STREAMING_MESSAGE, SET_ERROR (Str m)]"
    and ys: "list_all consumer_action ys" by blast
  obtain s1 ms where
    s1: "dispatch_all (s\<lparr>messages := messages s @ [userMessage e t sid msg]\<rparr>) ys = Inr s1"
        "messages s1 = (messages s @ [userMessage e t sid msg]) @ ms"
    using dispatch_consumer_actions [OF ys] by fastforce
  have "dispatch_all s (dispatched (fst (send e ep t sid msg response))) =
     Inr (s1\<lparr>isTyping := False, streamingMessage := [], error := Str m, isLoading := False\<rparr>)"
    by (simp add: d dispatch_all_append s1)
  with s1 show ?thesis by simp
qed

lemma transport_failures:
  "snd (send e ep t sid msg (FetchFails m)) = Inl (JsError m)"
  "snd (send e ep t sid msg (Response False body)) = Inl (JsError (not_ok_text ep))"
  "snd (send e ep t sid msg (Response True (map Value rs @ ReadFails m # rest))) = Inl (JsError m)"
  by (simp_all add: send_simps failed_def read_loop_append read_loop_Values)

lemma failed_before_body:
  "dispatch_all s (dispatched (fst (failed (before_fetch e t sid msg) m))) =
     Inr (s\<lparr>messages := messages s @ [userMessage e t sid msg],
            isTyping := False, streamingMessage := [], error := Str m, isLoading := False\<rparr>)"
  by (simp add: failed_def before_fetch_def)



lemma insert_empty_chunk_step:
  assumes "insert_empty_chunk e body body'"
  shows "read_loop e ep sid c body' = read_loop e ep sid c body"
  using assms
proof cases
  case (within_read p a pre b post)
  have p: "newline \<notin> set p" using within_read(3) by (simp add: empty_chunk_payload_def)
  have "foldl (on_line e ep sid) k (split_newline (a @ data_frame p @ b)) =
        foldl (on_line e ep sid) k (split_newline (a @ b))" for k
  proof -
    have "foldl (on_line e ep sid) k (split_newline (a @ data_frame p @ b)) =
          foldl (on_line e ep sid)
            (on_line e ep sid (foldl (on_line e ep sid) k (split_newline a)) (data_line p))
            (split_newline b)"
      by (rule foldl_insert_frame [OF within_read(4) p])
    also have "\<dots> =
          foldl (on_line e ep sid) (foldl (on_line e ep sid) k (split_newline a)) (split_newline b)"
      by (simp add: on_line_empty_chunk [OF within_read(3)])
    also have "\<dots> = foldl (on_line e ep sid) k (split_newline (a @ b))"
      by (rule foldl_lines_append [OF within_read(4), symmetric])
    finally show ?thesis .
  qed
  then show ?thesis
    by (simp add: within_read(1,2) read_loop_append split: prod.splits option.splits)
next
  case (own_read p pre post)
  have p: "newline \<notin> set p" using own_read(3) by (simp add: empty_chunk_payload_def)
  have "foldl (on_line e ep sid) k (split_newline (data_frame p)) = k" for k
    using foldl_frames [of "[p]" e ep sid k] p by (simp add: on_line_empty_chunk [OF own_read(3)])
  then show ?thesis
    by (simp add: own_read(1,2) read_loop_append split: prod.splits option.splits)
qed





section \<open>Evaluating the sample inputs\<close>

lemma sample_parse_table:
  \<open>sample_parse ''{"type":"chunk","content":"Recur"}'' =
     Some (Obj [(''type'', Str ''chunk''), (''content'', Str ''Recur'')])\<close>
  \<open>sample_parse ''{"type":"chunk","content":"sion is"}'' =
     Some (Obj [(''type'', Str ''chunk''), (''content'', Str ''sion is'')])\<close>
  \<open>sample_parse ''{"type":"chunk","content":"..."}'' =
     Some (Obj [(''type'', Str ''chunk''), (''content'', Str ''...'')])\<close>
  \<open>sample_parse ''{"type":"chunk","content":""}'' =
     Some (Obj [(''type'', Str ''chunk''), (''content'', Str [])])\<close>
  \<open>sample_parse ''{"type":"chunk","content":null}'' =
     Some (Obj [(''type'', Str ''chunk''), (''content'', Null)])\<close>
  \<open>sample_parse ''{"type":"chunk"}'' = Some (Obj [(''type'', Str ''chunk'')])\<close>
  \<open>sample_parse ''{"type":"complete","suggestions":["Try an example"]}'' =
     Some (Obj [(''type'', Str ''complete''), (''suggestions'', Arr [Str ''Try an example''])])\<close>
  \<open>sample_parse ''{"type":"error","message":"Upstream unavailable"}'' =
     Some (Obj [(''type'', Str ''error''), (''message'', Str ''Upstream unavailable'')])\<close>
  \<open>sample_parse ''{"type":"chunk","con'' = None\<close>
  \<open>sample_parse ''{"type":"chunk","content":"sion'' = None\<close>
  by (simp_all add: sample_parse_def)

lemmas run_simps =
  sendMessage_def sendPremiumMessage_def send_simps before_fetch_def failed_def
  data_frame_def data_line_def newline_def on_line_def on_data_def log_parse_error_def
  parse_error_text_def not_ok_text_def sample_env_def sample_parse_table
  lookup_def opt_member_def js_or_def aiMessage_def userMessage_def
  show_int_def show_nat.simps sample_iso_def sample_now_def js_int_inverse initialState_def

lemmas payload_simps =
  chunk_payload_def complete_payload_def error_payload_def malformed_payload_def
  empty_chunk_payload_def line_aligned_def newline_def sample_env_def sample_parse_table
  lookup_def

text \<open>
  A chunk whose content is a number is appended by its digits. A chunk whose content
  has no conversion to a string is only logged, and the reducer throws on such a
  payload. A new key that is an array index is enumerated before the other keys.
\<close>

lemma number_chunk_appended:
  "on_data e Regular sid c (Obj [(''type'', Str ''chunk''), (''content'', Num (js_int 42))])
     = c\<lparr>fullResponse := fullResponse c @ ''42'',
         dispatched := dispatched c @ [SET_STREAMING_MESSAGE (Num (js_int 42))]\<rparr>"
  by (simp add: on_data_def lookup_def opt_member_def js_int_inverse show_int_def show_nat.simps)

lemma unrenderable_chunk_only_logged:
  "on_data e Regular sid c
       (Obj [(''type'', Str ''chunk''), (''content'', Obj [(''toString'', Null)])])
     = c\<lparr>console := console c @ [''Error parsing streaming data:'']\<rparr>"
  by (simp add: on_data_def lookup_def opt_member_def log_parse_error_def parse_error_text_def)

lemma unrenderable_payload_throws:
  "appReducer initialState (SET_STREAMING_MESSAGE (Arr [Str ''a'', Obj [(''toString'', Null)]]))
     = Inl (JsError ''Cannot convert object to primitive value'')"
  by simp

lemma index_keys_enumerate_first:
  "assign_all [(''b'', Bool True), (''10'', Null)] [(''9'', Null), (''01'', Null), (''b'', Bool False)]
     = [(''9'', Null), (''10'', Null), (''b'', Bool False), (''01'', Null)]"
  by (simp add: assign_all_def own_property_order_def is_array_index_def decimal_value_def)

section \<open>The claims\<close>

text \<open>
  In the theorems about a call, \<open>send e Regular\<close> is \<open>sendMessage e\<close> and
  \<open>send e (Premium context)\<close> is \<open>sendPremiumMessage e\<close> with that context, so a
  statement about \<open>send e ep\<close> speaks of both; \<open>dispatch_all s (dispatched c)\<close> is the
  store the interface shows after the call, when it showed \<open>s\<close> before.
\<close>

subsection \<open>C1: chunks followed by a complete frame\<close>

text \<open>
  Claim C1, as amended. A response whose frames are chunk frames with the content
  strings \<open>xs\<close> followed by one complete frame, when no read boundary cuts a frame (each
  frame reaches the consumer as a line of a read: the lines of the reads, blank lines
  aside, are these frames in this order): the call returns the concatenation of \<open>xs\<close>
  in order, and the store ends with the user's message followed by one mentor message
  whose \<open>message\<close> is that concatenation, \<open>isTyping\<close> false and the streamed text
  cleared.
\<close>

theorem chunks_then_complete_concatenated:
  assumes "list_all2 (chunk_payload e) ps xs"
      and "complete_payload e q"
      and "frame_lines rs = map data_line (ps @ [q])"
  shows "\<exists>c ai. send e ep t sid msg (Response True (map Value rs)) = (c, Inr (concat xs))
           \<and> dispatch_all s (dispatched c)
               = Inr (s\<lparr>messages := messages s @ [userMessage e t sid msg, ai],
                        isTyping := False, streamingMessage := []\<rparr>)
           \<and> member ai ''message'' = Some (Str (concat xs))
           \<and> member ai ''sender'' = Some (Str ''mentor'')"
proof -
  define c0 where "c0 = before_fetch e t sid msg"
  define c1 where "c1 = c0\<lparr>fullResponse := fullResponse c0 @ concat xs,
       dispatched := dispatched c0 @
         map (\<lambda>x. SET_STREAMING_MESSAGE (Str x)) (filter (\<lambda>x. x \<noteq> []) xs)\<rparr>"
  define c2 where "c2 = on_line e ep sid c1 (data_line q)"
  have c0: "dispatched c0 = [ADD_MESSAGE (userMessage e t sid msg), SET_TYPING True,
                             CLEAR_STREAMING_MESSAGE]" "fullResponse c0 = []"
    by (simp_all add: c0_def before_fetch_def)
  obtain data where
    c2: "c2 = c1\<lparr>dispatched := dispatched c1 @
          [SET_TYPING False, ADD_MESSAGE (aiMessage e ep sid c1 data), CLEAR_STREAMING_MESSAGE],
       clock := clock c1 + 2\<rparr>"
    unfolding c2_def using on_line_complete [OF assms(2), of ep sid c1] by blast
  define ai where "ai = aiMessage e ep sid c1 data"
  have loop: "read_loop e ep sid c0 (map Value rs) = (c2, None)"
    unfolding c2_def c1_def by (rule chunks_then_last [OF assms(1) assms(3)])
  have full1: "fullResponse c1 = concat xs"
    by (simp add: c1_def c0)
  have full: "fullResponse c2 = concat xs"
    by (simp add: c2 full1)
  have run: "send e ep t sid msg (Response True (map Value rs)) = (c2, Inr (concat xs))"
    using loop full by (simp add: send_simps c0_def [symmetric])
  have disp: "dispatched c2 = [ADD_MESSAGE (userMessage e t sid msg), SET_TYPING True,
                               CLEAR_STREAMING_MESSAGE]
        @ map (\<lambda>x. SET_STREAMING_MESSAGE (Str x)) (filter (\<lambda>x. x \<noteq> []) xs)
        @ [SET_TYPING False, ADD_MESSAGE ai, CLEAR_STREAMING_MESSAGE]"
    by (simp add: c2 ai_def c1_def c0)
  have st: "dispatch_all s (dispatched c2)
               = Inr (s\<lparr>messages := messages s @ [userMessage e t sid msg, ai],
                        isTyping := False, streamingMessage := []\<rparr>)"
    by (simp add: disp dispatch_all_append dispatch_all_streaming)
  have ai: "member ai ''message'' = Some (Str (concat xs))"
    "member ai ''sender'' = Some (Str ''mentor'')"
    by (simp_all add: ai_def aiMessage_fields full1)
  from run st ai show ?thesis by blast
qed

text \<open>
  The scenario of the specification: the chunks \<open>Recur\<close>, \<open>sion is\<close> and \<open>...\<close>, then
  a complete frame, in three reads of which the second holds two frames.
\<close>

theorem chunks_then_complete_concatenated_witness:
  \<open>list_all2 (chunk_payload sample_env)
     [''{"type":"chunk","content":"Recur"}'', ''{"type":"chunk","content":"sion is"}'',
      ''{"type":"chunk","content":"..."}'']
     [''Recur'', ''sion is'', ''...'']
   \<and> complete_payload sample_env ''{"type":"complete","suggestions":["Try an example"]}''
   \<and> frame_lines
        [''data: {"type":"chunk","content":"Recur"}'' @ [newline],
         ''data: {"type":"chunk","content":"sion is"}'' @ [newline]
           @ ''data: {"type":"chunk","content":"..."}'' @ [newline],
         ''data: {"type":"complete","suggestions":["Try an example"]}'' @ [newline]]
      = map data_line
         ([''{"type":"chunk","content":"Recur"}'', ''{"type":"chunk","content":"sion is"}'',
           ''{"type":"chunk","content":"..."}'']
          @ [''{"type":"complete","suggestions":["Try an example"]}''])
   \<and> snd (sendMessage sample_env 0 (Str ''s1'') ''Explain recursion''
        (Response True
          [Value (''data: {"type":"chunk","content":"Recur"}'' @ [newline]),
           Value (''data: {"type":"chunk","content":"sion is"}'' @ [newline]
                  @ ''data: {"type":"chunk","content":"..."}'' @ [newline]),
           Value (''data: {"type":"complete","suggestions":["Try an example"]}'' @ [newline])]))
       = Inr ''Recursion is...''\<close>
proof -
  have h1: \<open>list_all2 (chunk_payload sample_env)
     [''{"type":"chunk","content":"Recur"}'', ''{"type":"chunk","content":"sion is"}'',
      ''{"type":"chunk","content":"..."}'']
     [''Recur'', ''sion is'', ''...'']\<close>
    by (simp add: payload_simps)
  have h2: \<open>complete_payload sample_env ''{"type":"complete","suggestions":["Try an example"]}''\<close>
    by (simp add: payload_simps)
  have h3: \<open>frame_lines
        [''data: {"type":"chunk","content":"Recur"}'' @ [newline],
         ''data: {"type":"chunk","content":"sion is"}'' @ [newline]
           @ ''data: {"type":"chunk","content":"..."}'' @ [newline],
         ''data: {"type":"complete","suggestions":["Try an example"]}'' @ [newline]]
      = map data_line
         ([''{"type":"chunk","content":"Recur"}'', ''{"type":"chunk","content":"sion is"}'',
           ''{"type":"chunk","content":"..."}'']
          @ [''{"type":"complete","suggestions":["Try an example"]}''])\<close>
    by (simp add: frame_lines_def lines_read_def data_line_def newline_def)
  from chunks_then_complete_concatenated
         [OF h1 h2 h3, of Regular 0 "Str ''s1''" "''Explain recursion''" initialState] h1 h2 h3
  show ?thesis
    by (auto simp: sendMessage_def)
qed

text \<open>
  Claim C1 as stated fails: it speaks of every response made of such frames, however
  the transport delivers it. The three chunk frames of the scenario and the complete
  frame, delivered in two reads of which the first ends inside the second frame (after
  \<open>sion\<close>), give the mentor message \<open>Recur...\<close>: the content \<open>sion is\<close> is lost. The
  consumer splits each read at newlines on its own, so the first part of the cut frame
  fails to parse and is logged, and the second part does not start with the marker and
  is skipped.
\<close>

theorem cut_chunk_frame_is_lost:
  \<open>list_all2 (chunk_payload sample_env)
     [''{"type":"chunk","content":"Recur"}'', ''{"type":"chunk","content":"sion is"}'',
      ''{"type":"chunk","content":"..."}'']
     [''Recur'', ''sion is'', ''...'']
   \<and> complete_payload sample_env ''{"type":"complete","suggestions":["Try an example"]}''
   \<and> (''data: {"type":"chunk","content":"Recur"}'' @ [newline]
        @ ''data: {"type":"chunk","content":"sion'')
      @ ('' is"}'' @ [newline]
        @ ''data: {"type":"chunk","content":"..."}'' @ [newline]
        @ ''data: {"type":"complete","suggestions":["Try an example"]}'' @ [newline])
     = data_frame ''{"type":"chunk","content":"Recur"}''
       @ data_frame ''{"type":"chunk","content":"sion is"}''
       @ data_frame ''{"type":"chunk","content":"..."}''
       @ data_frame ''{"type":"complete","suggestions":["Try an example"]}''
   \<and> sendMessage sample_env 0 (Str ''s1'') ''Explain recursion''
      (Response True
         [Value (''data: {"type":"chunk","content":"Recur"}'' @ [newline]
                 @ ''data: {"type":"chunk","content":"sion''),
          Value ('' is"}'' @ [newline]
                 @ ''data: {"type":"chunk","content":"..."}'' @ [newline]
                 @ ''data: {"type":"complete","suggestions":["Try an example"]}'' @ [newline])])
    = (\<lparr>dispatched =
          [ADD_MESSAGE (Obj [(''id'', Str ''0''), (''session_id'', Str ''s1''),
                             (''message'', Str ''Explain recursion''), (''sender'', Str ''user''),
                             (''timestamp'', Str ''1970-01-01T00:00:00.001Z'')]),
           SET_TYPING True, CLEAR_STREAMING_MESSAGE,
           SET_STREAMING_MESSAGE (Str ''Recur''),
           SET_STREAMING_MESSAGE (Str ''...''),
           SET_TYPING False,
           ADD_MESSAGE (Obj [(''id'', Str ''3''), (''session_id'', Str ''s1''),
                             (''message'', Str ''Recur...''), (''sender'', Str ''mentor''),
                             (''timestamp'', Str ''1970-01-01T00:00:00.003Z''),
                             (''suggestions'', Arr [Str ''Try an example''])]),
           CLEAR_STREAMING_MESSAGE],
        fullResponse = ''Recur...'', console = [''Error parsing streaming data:''], clock = 4\<rparr>,
       Inr ''Recur...'')
   \<and> concat [''Recur'', ''sion is'', ''...''] \<noteq> ''Recur...''\<close>
  by (simp add: run_simps payload_simps data_frame_def data_line_def)

subsection \<open>C2: a frame split across two reads\<close>

text \<open>
  Claim C2, as amended. The consumer keeps no buffer between reads: it splits the text
  of each read at the newlines by itself, so the two parts of a frame that is cut by a
  read boundary are two lines, neither of them the frame. What holds is the invariance
  under regrouping of whole lines: two deliveries of the same text, both in reads that
  end where a line ends, give the same actions, the same console lines and the same
  result.
\<close>

theorem whole_line_reads_regroup:
  assumes "list_all line_aligned rs" and "list_all line_aligned rs'" and "concat rs = concat rs'"
  shows "send e ep t sid msg (Response True (map Value rs)) =
         send e ep t sid msg (Response True (map Value rs'))"
proof -
  have "read_loop e ep sid c (map Value rs) = read_loop e ep sid c (map Value rs')" for c
    by (simp add: read_loop_Values reads_as_one [OF assms(1)] reads_as_one [OF assms(2)] assms(3))
  then show ?thesis by (simp add: send_simps)
qed

theorem whole_line_reads_regroup_witness:
  \<open>list_all line_aligned
     [data_frame ''{"type":"chunk","content":"Recur"}'',
      data_frame ''{"type":"chunk","content":"sion is"}''
        @ data_frame ''{"type":"complete","suggestions":["Try an example"]}'']
   \<and> list_all line_aligned
     [data_frame ''{"type":"chunk","content":"Recur"}''
        @ data_frame ''{"type":"chunk","content":"sion is"}'',
      data_frame ''{"type":"complete","suggestions":["Try an example"]}'']
   \<and> snd (sendMessage sample_env 0 (Str ''s1'') ''Explain recursion''
        (Response True
          [Value (data_frame ''{"type":"chunk","content":"Recur"}''),
           Value (data_frame ''{"type":"chunk","content":"sion is"}''
                  @ data_frame ''{"type":"complete","suggestions":["Try an example"]}'')]))
       = Inr ''Recursion is''
   \<and> snd (sendMessage sample_env 0 (Str ''s1'') ''Explain recursion''
        (Response True
          [Value (data_frame ''{"type":"chunk","content":"Recur"}''
                  @ data_frame ''{"type":"chunk","content":"sion is"}''),
           Value (data_frame ''{"type":"complete","suggestions":["Try an example"]}'')]))
       = Inr ''Recursion is''\<close>
proof -
  have h1: \<open>list_all line_aligned
     [data_frame ''{"type":"chunk","content":"Recur"}'',
      data_frame ''{"type":"chunk","content":"sion is"}''
        @ data_frame ''{"type":"complete","suggestions":["Try an example"]}'']\<close>
    by (simp add: line_aligned_def data_frame_def)
  have h2: \<open>list_all line_aligned
     [data_frame ''{"type":"chunk","content":"Recur"}''
        @ data_frame ''{"type":"chunk","content":"sion is"}'',
      data_frame ''{"type":"complete","suggestions":["Try an example"]}'']\<close>
    by (simp add: line_aligned_def data_frame_def)
  have h3: \<open>concat
     [data_frame ''{"type":"chunk","content":"Recur"}'',
      data_frame ''{"type":"chunk","content":"sion is"}''
        @ data_frame ''{"type":"complete","suggestions":["Try an example"]}'']
    = concat
     [data_frame ''{"type":"chunk","content":"Recur"}''
        @ data_frame ''{"type":"chunk","content":"sion is"}'',
      data_frame ''{"type":"complete","suggestions":["Try an example"]}'']\<close>
    by simp
  have v: \<open>snd (sendMessage sample_env 0 (Str ''s1'') ''Explain recursion''
        (Response True
          [Value (data_frame ''{"type":"chunk","content":"Recur"}''),
           Value (data_frame ''{"type":"chunk","content":"sion is"}''
                  @ data_frame ''{"type":"complete","suggestions":["Try an example"]}'')]))
       = Inr ''Recursion is''\<close>
    by (simp add: run_simps)
  from whole_line_reads_regroup
         [OF h1 h2 h3, of sample_env Regular 0 "Str ''s1''" "''Explain recursion''"] h1 h2 v
  show ?thesis
    by (simp add: sendMessage_def)
qed

text \<open>
  Claim C2 as stated fails. The chunk frame \<open>Recur\<close> and a complete frame, each in one
  read, give the mentor message \<open>Recur\<close>. The same bytes with the chunk frame cut after
  \<open>"con\<close> give an empty mentor message: the first part fails to parse and is logged,
  the second part does not start with the marker and is skipped.
\<close>

theorem split_frame_not_reassembled:
  \<open>sendMessage sample_env 0 (Str ''s1'') ''Explain recursion''
      (Response True
         [Value (''data: {"type":"chunk","content":"Recur"}'' @ [newline]),
          Value (''data: {"type":"complete","suggestions":["Try an example"]}'' @ [newline])])
    = (\<lparr>dispatched =
          [ADD_MESSAGE (Obj [(''id'', Str ''0''), (''session_id'', Str ''s1''),
                             (''message'', Str ''Explain recursion''), (''sender'', Str ''user''),
                             (''timestamp'', Str ''1970-01-01T00:00:00.001Z'')]),
           SET_TYPING True, CLEAR_STREAMING_MESSAGE,
           SET_STREAMING_MESSAGE (Str ''Recur''),
           SET_TYPING False,
           ADD_MESSAGE (Obj [(''id'', Str ''3''), (''session_id'', Str ''s1''),
                             (''message'', Str ''Recur''), (''sender'', Str ''mentor''),
                             (''timestamp'', Str ''1970-01-01T00:00:00.003Z''),
                             (''suggestions'', Arr [Str ''Try an example''])]),
           CLEAR_STREAMING_MESSAGE],
        fullResponse = ''Recur'', console = [], clock = 4\<rparr>,
       Inr ''Recur'')
   \<and> sendMessage sample_env 0 (Str ''s1'') ''Explain recursion''
      (Response True
         [Value ''data: {"type":"chunk","con'',
          Value (''tent":"Recur"}'' @ [newline]),
          Value (''data: {"type":"complete","suggestions":["Try an example"]}'' @ [newline])])
    = (\<lparr>dispatched =
          [ADD_MESSAGE (Obj [(''id'', Str ''0''), (''session_id'', Str ''s1''),
                             (''message'', Str ''Explain recursion''), (''sender'', Str ''user''),
                             (''timestamp'', Str ''1970-01-01T00:00:00.001Z'')]),
           SET_TYPING True, CLEAR_STREAMING_MESSAGE,
           SET_TYPING False,
           ADD_MESSAGE (Obj [(''id'', Str ''3''), (''session_id'', Str ''s1''),
                             (''message'', Str []), (''sender'', Str ''mentor''),
                             (''timestamp'', Str ''1970-01-01T00:00:00.003Z''),
                             (''suggestions'', Arr [Str ''Try an example''])]),
           CLEAR_STREAMING_MESSAGE],
        fullResponse = [], console = [''Error parsing streaming data:''], clock = 4\<rparr>,
       Inr [])\<close>
  by (simp add: run_simps)

subsection \<open>C3: chunks followed by an error frame\<close>




subsection \<open>C4: a frame that does not parse\<close>



subsection \<open>C5: frames after a terminal frame\<close>

text \<open>
  Claim C5, as amended. The consumer does not stop at a complete or an error frame: it
  reads on until the reader reports \<open>done\<close> and handles every later line as it handles
  any line. The store stays as the reads \<open>rs\<close> left it (in particular as a terminal
  frame at their end left it) through all later reads \<open>rs'\<close> whose lines are none of
  a chunk with truthy content, a complete frame or an error frame; such later lines can
  only add console lines. A later frame of one of these three kinds is applied.
\<close>

theorem later_inert_lines_keep_state:
  assumes "list_all (\<lambda>l. \<not> effective_line e l) (lines_read rs')"
  shows "dispatched (fst (send e ep t sid msg (Response True (map Value (rs @ rs'))))) =
         dispatched (fst (send e ep t sid msg (Response True (map Value rs))))
       \<and> snd (send e ep t sid msg (Response True (map Value (rs @ rs')))) =
         snd (send e ep t sid msg (Response True (map Value rs)))"
proof -
  have lines: "list_all (\<lambda>l. \<not> effective_line e l) ls \<Longrightarrow>
      dispatched (foldl (on_line e ep sid) c ls) = dispatched c \<and>
      fullResponse (foldl (on_line e ep sid) c ls) = fullResponse c" for ls c
  proof (induction ls arbitrary: c)
    case Nil
    show ?case by simp
  next
    case (Cons l ls)
    then have l: "\<not> effective_line e l" and ls: "list_all (\<lambda>l. \<not> effective_line e l) ls"
      by simp_all
    from Cons.IH [OF ls, of "on_line e ep sid c l"] on_line_inert [OF l, of ep sid c]
    show ?case by simp
  qed
  have "lines_read (rs @ rs') = lines_read rs @ lines_read rs'"
    by (simp add: lines_read_def)
  then show ?thesis
    using lines [OF assms]
    by (simp add: send_simps read_loop_lines del: map_append)
qed

text \<open>
  After the chunk \<open>Recur\<close> and a complete frame: a chunk with empty content, a blank
  line and a truncated frame change neither the actions nor the result.
\<close>

theorem later_inert_lines_keep_state_witness:
  \<open>list_all (\<lambda>l. \<not> effective_line sample_env l)
     (lines_read
       [''data: {"type":"chunk","content":""}'' @ [newline], [newline],
        ''data: {"type":"chunk","con''])
   \<and> snd (sendMessage sample_env 0 (Str ''s1'') ''Explain recursion''
        (Response True
          [Value (''data: {"type":"chunk","content":"Recur"}'' @ [newline]),
           Value (''data: {"type":"complete","suggestions":["Try an example"]}'' @ [newline]),
           Value (''data: {"type":"chunk","content":""}'' @ [newline]),
           Value [newline],
           Value ''data: {"type":"chunk","con'']))
      = Inr ''Recur''
   \<and> dispatched (fst (sendMessage sample_env 0 (Str ''s1'') ''Explain recursion''
        (Response True
          [Value (''data: {"type":"chunk","content":"Recur"}'' @ [newline]),
           Value (''data: {"type":"complete","suggestions":["Try an example"]}'' @ [newline]),
           Value (''data: {"type":"chunk","content":""}'' @ [newline]),
           Value [newline],
           Value ''data: {"type":"chunk","con''])))
      = [ADD_MESSAGE (Obj [(''id'', Str ''0''), (''session_id'', Str ''s1''),
                           (''message'', Str ''Explain recursion''), (''sender'', Str ''user''),
                           (''timestamp'', Str ''1970-01-01T00:00:00.001Z'')]),
         SET_TYPING True, CLEAR_STREAMING_MESSAGE,
         SET_STREAMING_MESSAGE (Str ''Recur''),
         SET_TYPING False,
         ADD_MESSAGE (Obj [(''id'', Str ''3''), (''session_id'', Str ''s1''),
                           (''message'', Str ''Recur''), (''sender'', Str ''mentor''),
                           (''timestamp'', Str ''1970-01-01T00:00:00.003Z''),
                           (''suggestions'', Arr [Str ''Try an example''])]),
         CLEAR_STREAMING_MESSAGE]\<close>
proof -
  have h: \<open>list_all (\<lambda>l. \<not> effective_line sample_env l)
     (lines_read
       [''data: {"type":"chunk","content":""}'' @ [newline], [newline],
        ''data: {"type":"chunk","con''])\<close>
    by (simp add: lines_read_def effective_line_def newline_def sample_env_def
        sample_parse_table lookup_def opt_member_def)
  have v: \<open>send sample_env Regular 0 (Str ''s1'') ''Explain recursion''
        (Response True
          (map Value
            [''data: {"type":"chunk","content":"Recur"}'' @ [newline],
             ''data: {"type":"complete","suggestions":["Try an example"]}'' @ [newline]]))
     = (\<lparr>dispatched =
          [ADD_MESSAGE (Obj [(''id'', Str ''0''), (''session_id'', Str ''s1''),
                             (''message'', Str ''Explain recursion''), (''sender'', Str ''user''),
                             (''timestamp'', Str ''1970-01-01T00:00:00.001Z'')]),
           SET_TYPING True, CLEAR_STREAMING_MESSAGE,
           SET_STREAMING_MESSAGE (Str ''Recur''),
           SET_TYPING False,
           ADD_MESSAGE (Obj [(''id'', Str ''3''), (''session_id'', Str ''s1''),
                             (''message'', Str ''Recur''), (''sender'', Str ''mentor''),
                             (''timestamp'', Str ''1970-01-01T00:00:00.003Z''),
                             (''suggestions'', Arr [Str ''Try an example''])]),
           CLEAR_STREAMING_MESSAGE],
        fullResponse = ''Recur'', console = [], clock = 4\<rparr>,
       Inr ''Recur'')\<close>
    by (simp add: run_simps)
  from later_inert_lines_keep_state
         [OF h, of Regular 0 "Str ''s1''" "''Explain recursion''"
            "[''data: {\"type\":\"chunk\",\"content\":\"Recur\"}'' @ [newline],
              ''data: {\"type\":\"complete\",\"suggestions\":[\"Try an example\"]}'' @ [newline]]"]
       h
  show ?thesis
    unfolding v by (simp add: sendMessage_def)
qed

text \<open>
  Claim C5 as stated fails. The frames chunk \<open>Recur\<close>, complete, chunk \<open>sion is\<close>,
  complete: the frames after the first complete frame are applied, and the store ends
  with two mentor messages, the second holding the content of both chunks.
\<close>

theorem frames_after_complete_are_applied:
  \<open>dispatch_all initialState
      (dispatched (fst (sendMessage sample_env 0 (Str ''s1'') ''Explain recursion''
        (Response True
           [Value (''data: {"type":"chunk","content":"Recur"}'' @ [newline]),
            Value (''data: {"type":"complete","suggestions":["Try an example"]}'' @ [newline]),
            Value (''data: {"type":"chunk","content":"sion is"}'' @ [newline]),
            Value (''data: {"type":"complete","suggestions":["Try an example"]}'' @ [newline])]))))
     = Inr \<lparr>user = Null, currentSession = Null, sessions = [],
            messages =
              [Obj [(''id'', Str ''0''), (''session_id'', Str ''s1''),
                    (''message'', Str ''Explain recursion''), (''sender'', Str ''user''),
                    (''timestamp'', Str ''1970-01-01T00:00:00.001Z'')],
               Obj [(''id'', Str ''3''), (''session_id'', Str ''s1''),
                    (''message'', Str ''Recur''), (''sender'', Str ''mentor''),
                    (''timestamp'', Str ''1970-01-01T00:00:00.003Z''),
                    (''suggestions'', Arr [Str ''Try an example''])],
               Obj [(''id'', Str ''5''), (''session_id'', Str ''s1''),
                    (''message'', Str ''Recursion is''), (''sender'', Str ''mentor''),
                    (''timestamp'', Str ''1970-01-01T00:00:00.005Z''),
                    (''suggestions'', Arr [Str ''Try an example''])]],
            isLoading = False, error = Null, isTyping = False,
            streamingMessage = [], darkMode = True, progress = [], gamificationData = Null,
            achievements = Arr [], streak = Null, rewards = Null\<rparr>\<close>
  by (simp add: run_simps)

subsection \<open>C6: an error frame, a failing transport\<close>



subsection \<open>C7: a submit while a stream is in flight\<close>



text \<open>
  The same submit on an idle store is accepted: the input is cleared and the premium
  request is opened (here it is answered with one chunk and a complete frame).
\<close>

lemma submit_accepted_when_idle:
  \<open>handleSendMessage sample_env
        (\<lambda>message conversation. \<lparr>ca_actions = [], ca_clock = 0, ca_error = None\<rparr>)
        \<lparr>premium_response =
           Response True
             [Value (''data: {"type":"chunk","content":"Recur"}'' @ [newline]),
              Value (''data: {"type":"complete","suggestions":["Try an example"]}'' @ [newline])],
         fallback_response = FetchFails ''offline''\<rparr>
        0
        \<lparr>inputMessage = '' Explain recursion '', learningMode = ''adaptive'',
         useAdvancedStreaming = False, useContextAwareness = False\<rparr>
        (initialState\<lparr>currentSession := Obj [(''id'', Str ''s1'')]\<rparr>)
     = \<lparr>ui_after = \<lparr>inputMessage = [], learningMode = ''adaptive'',
                      useAdvancedStreaming = False, useContextAwareness = False\<rparr>,
        actions_dispatched =
          [ADD_MESSAGE (Obj [(''id'', Str ''0''), (''session_id'', Str ''s1''),
                             (''message'', Str ''Explain recursion''), (''sender'', Str ''user''),
                             (''timestamp'', Str ''1970-01-01T00:00:00.001Z'')]),
           SET_TYPING True, CLEAR_STREAMING_MESSAGE,
           SET_STREAMING_MESSAGE (Str ''Recur''),
           SET_TYPING False,
           ADD_MESSAGE (Obj [(''id'', Str ''3''), (''session_id'', Str ''s1''),
                             (''message'', Str ''Recur''), (''sender'', Str ''mentor''),
                             (''timestamp'', Str ''1970-01-01T00:00:00.003Z''),
                             (''suggestions'', Arr [Str ''Try an example'']),
                             (''next_steps'', Undefined),
                             (''learning_mode'', Str ''adaptive'')]),
           CLEAR_STREAMING_MESSAGE],
        streams_opened = 1, console_lines = []\<rparr>\<close>
  by (simp add: handleSendMessage_def trim_def is_space_def run_simps)

text \<open>
  An input of white space only is rejected on the idle store, and its submit button is
  disabled: here a tab, a no-break space and a space.
\<close>

lemma blank_input_rejected_when_idle:
  \<open>trim [CHR 0x09, CHR 0xA0, CHR 0x20] = []
   \<and> submit_disabled
        \<lparr>inputMessage = [CHR 0x09, CHR 0xA0, CHR 0x20], learningMode = ''adaptive'',
         useAdvancedStreaming = False, useContextAwareness = False\<rparr>
        (initialState\<lparr>currentSession := Obj [(''id'', Str ''s1'')]\<rparr>)
   \<and> handleSendMessage sample_env
        (\<lambda>message conversation. \<lparr>ca_actions = [], ca_clock = 0, ca_error = None\<rparr>)
        \<lparr>premium_response = FetchFails ''offline'', fallback_response = FetchFails ''offline''\<rparr>
        0
        \<lparr>inputMessage = [CHR 0x09, CHR 0xA0, CHR 0x20], learningMode = ''adaptive'',
         useAdvancedStreaming = False, useContextAwareness = False\<rparr>
        (initialState\<lparr>currentSession := Obj [(''id'', Str ''s1'')]\<rparr>)
     = \<lparr>ui_after = \<lparr>inputMessage = [CHR 0x09, CHR 0xA0, CHR 0x20], learningMode = ''adaptive'',
                      useAdvancedStreaming = False, useContextAwareness = False\<rparr>,
        actions_dispatched = [], streams_opened = 0, console_lines = []\<rparr>\<close>
  by (simp add: handleSendMessage_def submit_disabled_def trim_def is_space_def initialState_def)

subsection \<open>C8: chunk frames without content\<close>

text \<open>
  Claim C8. A chunk frame whose content is missing, \<open>null\<close> or the empty string
  leaves the consumer as it was: nothing is dispatched, so the store does not change,
  the accumulated response is the same and nothing is logged. Hence a response into
  which any number of such frames have been put, each at a line boundary of a read or
  as a read of its own, gives the same actions, the same console and the same result
  as the response without them.
\<close>

theorem empty_chunk_frames_are_identity:
  "(empty_chunk_payload e p \<longrightarrow> on_line e ep sid c (data_line p) = c)
   \<and> ((insert_empty_chunk e)\<^sup>*\<^sup>* body body' \<longrightarrow>
        send e ep t sid msg (Response True body') = send e ep t sid msg (Response True body))"
proof (intro conjI impI)
  assume "empty_chunk_payload e p"
  then show "on_line e ep sid c (data_line p) = c" by (rule on_line_empty_chunk)
next
  assume "(insert_empty_chunk e)\<^sup>*\<^sup>* body body'"
  then have "read_loop e ep sid k body' = read_loop e ep sid k body" for k
    by (induction rule: rtranclp_induct) (simp_all add: insert_empty_chunk_step)
  then show "send e ep t sid msg (Response True body') = send e ep t sid msg (Response True body)"
    by (simp add: send_simps)
qed

text \<open>
  Three frames without content (an empty string, \<open>null\<close>, no content field) put into
  the response chunk \<open>Recur\<close>, complete: one inside the first read, one as a read of
  its own, one before the complete frame.
\<close>

theorem empty_chunk_frames_are_identity_witness:
  \<open>empty_chunk_payload sample_env ''{"type":"chunk","content":""}''
   \<and> empty_chunk_payload sample_env ''{"type":"chunk","content":null}''
   \<and> empty_chunk_payload sample_env ''{"type":"chunk"}''
   \<and> sendMessage sample_env 0 (Str ''s1'') ''Explain recursion''
        (Response True
          [Value (data_frame ''{"type":"chunk","content":"Recur"}''
                  @ data_frame ''{"type":"chunk","content":""}''),
           Value (data_frame ''{"type":"chunk","content":null}''),
           Value (data_frame ''{"type":"chunk"}''
                  @ data_frame ''{"type":"complete","suggestions":["Try an example"]}'')])
     = (\<lparr>dispatched =
          [ADD_MESSAGE (Obj [(''id'', Str ''0''), (''session_id'', Str ''s1''),
                             (''message'', Str ''Explain recursion''), (''sender'', Str ''user''),
                             (''timestamp'', Str ''1970-01-01T00:00:00.001Z'')]),
           SET_TYPING True, CLEAR_STREAMING_MESSAGE,
           SET_STREAMING_MESSAGE (Str ''Recur''),
           SET_TYPING False,
           ADD_MESSAGE (Obj [(''id'', Str ''3''), (''session_id'', Str ''s1''),
                             (''message'', Str ''Recur''), (''sender'', Str ''mentor''),
                             (''timestamp'', Str ''1970-01-01T00:00:00.003Z''),
                             (''suggestions'', Arr [Str ''Try an example''])]),
           CLEAR_STREAMING_MESSAGE],
        fullResponse = ''Recur'', console = [], clock = 4\<rparr>,
       Inr ''Recur'')\<close>
proof -
  let ?recur = \<open>data_frame ''{"type":"chunk","content":"Recur"}''\<close>
  let ?done = \<open>data_frame ''{"type":"complete","suggestions":["Try an example"]}''\<close>
  let ?p1 = \<open>''{"type":"chunk","content":""}''\<close>
  let ?p2 = \<open>''{"type":"chunk","content":null}''\<close>
  let ?p3 = \<open>''{"type":"chunk"}''\<close>
  have h1: "empty_chunk_payload sample_env ?p1"
    by (simp add: payload_simps)
  have h2: "empty_chunk_payload sample_env ?p2"
    by (simp add: payload_simps)
  have h3: "empty_chunk_payload sample_env ?p3"
    by (simp add: payload_simps)
  have al: "line_aligned ?recur" "line_aligned []"
    by (simp_all add: line_aligned_def data_frame_def)
  have s1: "insert_empty_chunk sample_env
      [Value ?recur, Value ?done]
      [Value (?recur @ data_frame ?p1), Value ?done]"
    using within_read [OF h1 al(1), of "[]" "[]" "[Value ?done]"] by simp
  have s2: "insert_empty_chunk sample_env
      [Value (?recur @ data_frame ?p1), Value ?done]
      [Value (?recur @ data_frame ?p1), Value (data_frame ?p2), Value ?done]"
    using own_read [OF h2, of "[Value (?recur @ data_frame ?p1)]" "[Value ?done]"] by simp
  have s3: "insert_empty_chunk sample_env
      [Value (?recur @ data_frame ?p1), Value (data_frame ?p2), Value ?done]
      [Value (?recur @ data_frame ?p1), Value (data_frame ?p2), Value (data_frame ?p3 @ ?done)]"
    using within_read [OF h3 al(2), of "[Value (?recur @ data_frame ?p1), Value (data_frame ?p2)]"
        ?done "[]"] by simp
  have steps: "(insert_empty_chunk sample_env)\<^sup>*\<^sup>*
      [Value ?recur, Value ?done]
      [Value (?recur @ data_frame ?p1), Value (data_frame ?p2), Value (data_frame ?p3 @ ?done)]"
    using s1 s2 s3 by (meson rtranclp.rtrancl_into_rtrancl rtranclp.rtrancl_refl)
  have v: \<open>send sample_env Regular 0 (Str ''s1'') ''Explain recursion''
        (Response True [Value ?recur, Value ?done])
     = (\<lparr>dispatched =
          [ADD_MESSAGE (Obj [(''id'', Str ''0''), (''session_id'', Str ''s1''),
                             (''message'', Str ''Explain recursion''), (''sender'', Str ''user''),
                             (''timestamp'', Str ''1970-01-01T00:00:00.001Z'')]),
           SET_TYPING True, CLEAR_STREAMING_MESSAGE,
           SET_STREAMING_MESSAGE (Str ''Recur''),
           SET_TYPING False,
           ADD_MESSAGE (Obj [(''id'', Str ''3''), (''session_id'', Str ''s1''),
                             (''message'', Str ''Recur''), (''sender'', Str ''mentor''),
                             (''timestamp'', Str ''1970-01-01T00:00:00.003Z''),
                             (''suggestions'', Arr [Str ''Try an example''])]),
           CLEAR_STREAMING_MESSAGE],
        fullResponse = ''Recur'', console = [], clock = 4\<rparr>,
       Inr ''Recur'')\<close>
    by (simp add: run_simps)
  from empty_chunk_frames_are_identity
         [of sample_env ?p1 Regular "Str ''s1''" "before_fetch sample_env 0 (Str ''s1'') ''Explain recursion''"
            "[Value ?recur, Value ?done]"
            "[Value (?recur @ data_frame ?p1), Value (data_frame ?p2), Value (data_frame ?p3 @ ?done)]"
            0 "''Explain recursion''"]
       steps h1 h2 h3 v
  show ?thesis
    by (simp add: sendMessage_def)
qed

subsection \<open>C9: the reducer and \<open>streamingMessage\<close>\<close>

text \<open>
  Claim C9. \<open>SET_STREAMING_MESSAGE\<close> appends its payload to \<open>streamingMessage\<close>, as \<open>+\<close>
  renders the payload: a string as itself, another value by its conversion to a string;
  where the payload has no such conversion the reducer throws and returns no state. An
  action that is neither \<open>SET_STREAMING_MESSAGE\<close> nor \<open>CLEAR_STREAMING_MESSAGE\<close> leaves
  \<open>streamingMessage\<close> as it is. So after any series of actions that the reducer has
  applied, every payload since the most recent \<open>CLEAR_STREAMING_MESSAGE\<close> has a
  rendering, and \<open>streamingMessage\<close> is what it was at that \<open>CLEAR_STREAMING_MESSAGE\<close>
  (empty) or at the start of the series, followed by the renderings of these payloads
  in dispatch order; from the initial state it is their concatenation. The payloads
  that \<open>sendMessage\<close> and \<open>sendPremiumMessage\<close> dispatch all have a rendering.
\<close>

theorem streamingMessage_is_payloads_since_clear:
  "appReducer s (SET_STREAMING_MESSAGE p) =
     (case ToString p of
        None \<Rightarrow> Inl (JsError ''Cannot convert object to primitive value'')
      | Some rendered \<Rightarrow> Inr (s\<lparr>streamingMessage := streamingMessage s @ rendered\<rparr>))
   \<and> ToString (Str x) = Some x
   \<and> (\<forall>a s'. a \<noteq> CLEAR_STREAMING_MESSAGE \<and> (\<forall>p. a \<noteq> SET_STREAMING_MESSAGE p)
          \<and> appReducer s a = Inr s'
        \<longrightarrow> streamingMessage s' = streamingMessage s)
   \<and> (\<forall>as s'. dispatch_all s as = Inr s' \<longrightarrow>
        (\<exists>ts. map ToString (streamed_since_clear as) = map Some ts \<and>
              streamingMessage s' =
                (if CLEAR_STREAMING_MESSAGE \<in> set as then [] else streamingMessage s)
                  @ concat ts))
   \<and> (\<forall>as s'. dispatch_all initialState as = Inr s' \<longrightarrow>
        (\<exists>ts. map ToString (streamed_since_clear as) = map Some ts \<and>
              streamingMessage s' = concat ts))
   \<and> (\<forall>q. SET_STREAMING_MESSAGE q \<in> set (dispatched (fst (send e ep t sid msg response)))
        \<longrightarrow> ToString q \<noteq> None)"
proof (intro conjI allI impI)
  show "appReducer s (SET_STREAMING_MESSAGE p) =
     (case ToString p of
        None \<Rightarrow> Inl (JsError ''Cannot convert object to primitive value'')
      | Some rendered \<Rightarrow> Inr (s\<lparr>streamingMessage := streamingMessage s @ rendered\<rparr>))"
    by simp
next
  show "ToString (Str x) = Some x" by simp
next
  fix a s'
  assume a: "a \<noteq> CLEAR_STREAMING_MESSAGE \<and> (\<forall>p. a \<noteq> SET_STREAMING_MESSAGE p)
          \<and> appReducer s a = Inr s'"
  then have "streaming_payload a = []" by (cases a) simp_all
  with a show "streamingMessage s' = streamingMessage s"
    using appReducer_streamingMessage [of s a s'] by simp
next
  fix as s' assume "dispatch_all s as = Inr s'"
  then show "\<exists>ts. map ToString (streamed_since_clear as) = map Some ts \<and>
              streamingMessage s' =
                (if CLEAR_STREAMING_MESSAGE \<in> set as then [] else streamingMessage s)
                  @ concat ts"
    by (rule dispatch_all_streamingMessage)
next
  fix as s' assume "dispatch_all initialState as = Inr s'"
  from dispatch_all_streamingMessage [OF this]
  show "\<exists>ts. map ToString (streamed_since_clear as) = map Some ts \<and>
              streamingMessage s' = concat ts"
    by (auto simp: initialState_def)
next
  fix q
  assume q: "SET_STREAMING_MESSAGE q \<in> set (dispatched (fst (send e ep t sid msg response)))"
  obtain ys where ys: "dispatched (fst (send e ep t sid msg response)) =
        [ADD_MESSAGE (userMessage e t sid msg), SET_TYPING True, CLEAR_STREAMING_MESSAGE] @ ys"
      "list_all consumer_action ys"
    using send_grows by blast
  from q ys(1) have "SET_STREAMING_MESSAGE q \<in> set ys" by simp
  with ys(2) have "consumer_action (SET_STREAMING_MESSAGE q)"
    unfolding list_all_iff by blast
  then show "ToString q \<noteq> None" by simp
qed

theorem streamingMessage_is_payloads_since_clear_witness:
  "dispatch_all initialState
     [SET_STREAMING_MESSAGE (Str ''old''), SET_TYPING True, CLEAR_STREAMING_MESSAGE,
      SET_STREAMING_MESSAGE (Str ''Recur''), ADD_MESSAGE Null, SET_STREAMING_MESSAGE (Str ''sion'')]
     = Inr (initialState\<lparr>isTyping := True, messages := [Null], streamingMessage := ''Recursion''\<rparr>)
   \<and> streamed_since_clear
     [SET_STREAMING_MESSAGE (Str ''old''), SET_TYPING True, CLEAR_STREAMING_MESSAGE,
      SET_STREAMING_MESSAGE (Str ''Recur''), ADD_MESSAGE Null, SET_STREAMING_MESSAGE (Str ''sion'')]
     = [Str ''Recur'', Str ''sion'']
   \<and> map ToString [Str ''Recur'', Str ''sion''] = map Some [''Recur'', ''sion'']
   \<and> streamingMessage
        (initialState\<lparr>isTyping := True, messages := [Null], streamingMessage := ''Recursion''\<rparr>)
     = concat [''Recur'', ''sion'']"
proof -
  have d: "dispatch_all initialState
     [SET_STREAMING_MESSAGE (Str ''old''), SET_TYPING True, CLEAR_STREAMING_MESSAGE,
      SET_STREAMING_MESSAGE (Str ''Recur''), ADD_MESSAGE Null, SET_STREAMING_MESSAGE (Str ''sion'')]
     = Inr (initialState\<lparr>isTyping := True, messages := [Null], streamingMessage := ''Recursion''\<rparr>)"
    by (simp add: initialState_def)
  have p: "streamed_since_clear
     [SET_STREAMING_MESSAGE (Str ''old''), SET_TYPING True, CLEAR_STREAMING_MESSAGE,
      SET_STREAMING_MESSAGE (Str ''Recur''), ADD_MESSAGE Null, SET_STREAMING_MESSAGE (Str ''sion'')]
     = [Str ''Recur'', Str ''sion'']"
    by (simp add: streamed_since_clear_def since_last_clear_def)
  from streamingMessage_is_payloads_since_clear
         [of initialState Null "[]" sample_env Regular 0 "Str ''s1''" "''Explain recursion''"
            "FetchFails ''Failed to fetch''"]
  have "\<forall>as s'. dispatch_all initialState as = Inr s' \<longrightarrow>
        (\<exists>ts. map ToString (streamed_since_clear as) = map Some ts \<and>
              streamingMessage s' = concat ts)"
    by blast
  from this d obtain ts where
    "map ToString (streamed_since_clear
       [SET_STREAMING_MESSAGE (Str ''old''), SET_TYPING True, CLEAR_STREAMING_MESSAGE,
        SET_STREAMING_MESSAGE (Str ''Recur''), ADD_MESSAGE Null,
        SET_STREAMING_MESSAGE (Str ''sion'')]) = map Some ts"
    "streamingMessage
        (initialState\<lparr>isTyping := True, messages := [Null], streamingMessage := ''Recursion''\<rparr>)
       = concat ts"
    by blast
  with d p show ?thesis by auto
qed

subsection \<open>C10: the user's message on the failure paths\<close>

text \<open>
  Claim C10. Whatever the network answers, the first action of a call is the
  \<open>ADD_MESSAGE\<close> of the user's message, dispatched before the request. A rejected
  \<open>fetch\<close>, a response that is not OK and a rejected read make the call throw; and
  whenever the call throws an error with the message \<open>y\<close>, the store it leaves has the
  user's message right after the messages that were there before (followed by what
  complete frames read before the failure added), \<open>isTyping\<close> false, no streamed text
  and \<open>error\<close> set to \<open>y\<close>. For the two failures before any read the store is the one
  before the call with exactly these changes.
\<close>

theorem user_message_kept_on_failure:
  "(\<exists>ys. dispatched (fst (send e ep t sid msg response)) = ADD_MESSAGE (userMessage e t sid msg) # ys)
   \<and> snd (send e ep t sid msg (FetchFails x)) = Inl (JsError x)
   \<and> snd (send e ep t sid msg (Response False body)) = Inl (JsError (not_ok_text ep))
   \<and> snd (send e ep t sid msg (Response True (map Value rs @ ReadFails x # rest))) = Inl (JsError x)
   \<and> (\<forall>y. snd (send e ep t sid msg response) = Inl (JsError y) \<longrightarrow>
        (\<exists>s' ms. dispatch_all s (dispatched (fst (send e ep t sid msg response))) = Inr s'
           \<and> messages s' = messages s @ userMessage e t sid msg # ms
           \<and> isTyping s' = False \<and> streamingMessage s' = [] \<and> error s' = Str y))
   \<and> dispatch_all s (dispatched (fst (send e ep t sid msg (FetchFails x)))) =
        Inr (s\<lparr>messages := messages s @ [userMessage e t sid msg],
               isTyping := False, streamingMessage := [], error := Str x, isLoading := False\<rparr>)
   \<and> dispatch_all s (dispatched (fst (send e ep t sid msg (Response False body)))) =
        Inr (s\<lparr>messages := messages s @ [userMessage e t sid msg],
               isTyping := False, streamingMessage := [], error := Str (not_ok_text ep),
               isLoading := False\<rparr>)"
proof (intro conjI allI impI)
  show "\<exists>ys. dispatched (fst (send e ep t sid msg response)) = ADD_MESSAGE (userMessage e t sid msg) # ys"
    using send_grows [of e ep t sid msg response] by auto
next
  fix y assume "snd (send e ep t sid msg response) = Inl (JsError y)"
  then show "\<exists>s' ms. dispatch_all s (dispatched (fst (send e ep t sid msg response))) = Inr s'
           \<and> messages s' = messages s @ userMessage e t sid msg # ms
           \<and> isTyping s' = False \<and> streamingMessage s' = [] \<and> error s' = Str y"
    by (rule state_after_throw)
next
  show "snd (send e ep t sid msg (FetchFails x)) = Inl (JsError x)"
    by (rule transport_failures)
next
  show "snd (send e ep t sid msg (Response False body)) = Inl (JsError (not_ok_text ep))"
    by (rule transport_failures)
next
  show "snd (send e ep t sid msg (Response True (map Value rs @ ReadFails x # rest))) = Inl (JsError x)"
    by (rule transport_failures)
qed (simp_all add: send_simps failed_before_body)

text \<open>
  A body that delivers the chunk \<open>Recur\<close> and then rejects the next read, and a
  response with a status that is not OK.
\<close>

theorem user_message_kept_on_failure_witness:
  \<open>sendMessage sample_env 0 (Str ''s1'') ''Explain recursion''
      (Response True
        [Value (''data: {"type":"chunk","content":"Recur"}'' @ [newline]),
         ReadFails ''network error''])
     = (\<lparr>dispatched =
          [ADD_MESSAGE (userMessage sample_env 0 (Str ''s1'') ''Explain recursion''),
           SET_TYPING True, CLEAR_STREAMING_MESSAGE,
           SET_STREAMING_MESSAGE (Str ''Recur''),
           SET_TYPING False, CLEAR_STREAMING_MESSAGE, SET_ERROR (Str ''network error'')],
        fullResponse = ''Recur'', console = [], clock = 2\<rparr>,
       Inl (JsError ''network error''))
   \<and> (\<exists>s' ms. dispatch_all initialState
         (dispatched (fst (sendMessage sample_env 0 (Str ''s1'') ''Explain recursion''
           (Response True
             [Value (''data: {"type":"chunk","content":"Recur"}'' @ [newline]),
              ReadFails ''network error''])))) = Inr s'
        \<and> messages s' = userMessage sample_env 0 (Str ''s1'') ''Explain recursion'' # ms
        \<and> isTyping s' = False \<and> streamingMessage s' = [] \<and> error s' = Str ''network error'')
   \<and> dispatch_all initialState
        (dispatched (fst (sendMessage sample_env 0 (Str ''s1'') ''Explain recursion''
           (Response False []))))
      = Inr (initialState
          \<lparr>messages := [userMessage sample_env 0 (Str ''s1'') ''Explain recursion''],
           error := Str ''Failed to send message''\<rparr>)\<close>
proof -
  have v: \<open>send sample_env Regular 0 (Str ''s1'') ''Explain recursion''
      (Response True
        [Value (''data: {"type":"chunk","content":"Recur"}'' @ [newline]),
         ReadFails ''network error''])
     = (\<lparr>dispatched =
          [ADD_MESSAGE (userMessage sample_env 0 (Str ''s1'') ''Explain recursion''),
           SET_TYPING True, CLEAR_STREAMING_MESSAGE,
           SET_STREAMING_MESSAGE (Str ''Recur''),
           SET_TYPING False, CLEAR_STREAMING_MESSAGE, SET_ERROR (Str ''network error'')],
        fullResponse = ''Recur'', console = [], clock = 2\<rparr>,
       Inl (JsError ''network error''))\<close>
    by (simp add: run_simps)
  then have h: \<open>snd (send sample_env Regular 0 (Str ''s1'') ''Explain recursion''
      (Response True
        [Value (''data: {"type":"chunk","content":"Recur"}'' @ [newline]),
         ReadFails ''network error''])) = Inl (JsError ''network error'')\<close>
    by simp
  have a: \<open>\<exists>s' ms. dispatch_all initialState
         (dispatched (fst (send sample_env Regular 0 (Str ''s1'') ''Explain recursion''
           (Response True
             [Value (''data: {"type":"chunk","content":"Recur"}'' @ [newline]),
              ReadFails ''network error''])))) = Inr s'
        \<and> messages s' = messages initialState @ userMessage sample_env 0 (Str ''s1'') ''Explain recursion'' # ms
        \<and> isTyping s' = False \<and> streamingMessage s' = [] \<and> error s' = Str ''network error''\<close>
    using user_message_kept_on_failure
         [of sample_env Regular 0 "Str ''s1''" "''Explain recursion''"
            "Response True
               [Value (''data: {\"type\":\"chunk\",\"content\":\"Recur\"}'' @ [newline]),
                ReadFails ''network error'']"
            "''network error''" "[]" "[]" "[]" initialState] h
    by blast
  have b: \<open>dispatch_all initialState
        (dispatched (fst (send sample_env Regular 0 (Str ''s1'') ''Explain recursion''
           (Response False []))))
      = Inr (initialState
          \<lparr>messages := messages initialState @ [userMessage sample_env 0 (Str ''s1'') ''Explain recursion''],
           isTyping := False, streamingMessage := [],
           error := Str (not_ok_text Regular), isLoading := False\<rparr>)\<close>
    using user_message_kept_on_failure
         [of sample_env Regular 0 "Str ''s1''" "''Explain recursion''"
            "Response False []" "''network error''" "[]" "[]" "[]" initialState]
    by blast
  from v a b show ?thesis
    by (simp add: sendMessage_def not_ok_text_def initialState_def)
qed


end
